theory Spec2Isabelle
  imports Main
begin

section \<open>Values handled by the bridge client\<close>

text \<open>
  The development embeds \<^verbatim>\<open>module/x/peggy/client/cli/attestation_tx.go\<close>: the six
  commands that build a claim or a signature submission, check it and hand it to the
  broadcaster. Go's \<^verbatim>\<open>[]byte\<close> and \<^verbatim>\<open>string\<close> are both byte sequences, modelled
  as \<^typ>\<open>char list\<close> (a HOL \<^typ>\<open>char\<close> is one byte); \<^verbatim>\<open>uint64\<close> is a natural
  number below \<open>2 ^ 64\<close>, with every wrap-around written out where the code can wrap.
\<close>

type_synonym bytes = string
type_synonym uint64 = nat
type_synonym UInt64Nonce = uint64
type_synonym EthereumAddress = bytes
type_synonym AccAddress = bytes
type_synonym PrivateKey = bytes

text \<open>
  Errors are values. \<open>ErrNotFound\<close> is the package's own sentinel (line 24),
  \<open>ErrSyntax\<close> and \<open>ErrRange\<close> are the two failures of \<^verbatim>\<open>strconv\<close>, \<open>ErrArgs n k\<close> is
  cobra's refusal of \<open>k\<close> arguments where exactly \<open>n\<close> are expected, \<open>Wrap\<close> is
  \<^verbatim>\<open>sdkerrors.Wrap\<close>, and \<open>ErrExternal\<close> stands for any error raised by a collaborator.
\<close>

datatype error =
    ErrNotFound
  | ErrSyntax
  | ErrRange
  | ErrArgs nat nat
  | Wrap error string
  | ErrExternal string

text \<open>
  Modelled from the spec: the declaration of \<^verbatim>\<open>types.ERC20Token\<close> and its constructor
  \<^verbatim>\<open>types.NewERC20Token\<close> are not among the sources; the spec lists the token as a value
  type, pure data, made of an amount, a symbol and the address of the token contract.
\<close>

record ERC20Token =
  Amount :: uint64
  Symbol :: string
  TokenContractAddress :: EthereumAddress

definition NewERC20Token :: "uint64 \<Rightarrow> string \<Rightarrow> EthereumAddress \<Rightarrow> ERC20Token" where
  "NewERC20Token amount symbol contract =
     \<lparr>Amount = amount, Symbol = symbol, TokenContractAddress = contract\<rparr>"

text \<open>
  The four claim variants, with the fields the commands fill in (lines 102-109, 155-160,
  193-195 and 228-230), and the interface \<^verbatim>\<open>types.EthereumClaim\<close> as their sum.
\<close>

record EthereumBridgeBootstrappedClaim =
  Nonce :: UInt64Nonce
  Block :: uint64
  AllowedValidatorSet :: "EthereumAddress list"
  ValidatorPowers :: "uint64 list"
  PeggyID :: bytes
  StartThreshold :: uint64

record EthereumBridgeDepositClaim =
  Nonce :: UInt64Nonce
  ERC20Token :: ERC20Token
  EthereumSender :: EthereumAddress
  CosmosReceiver :: AccAddress

record EthereumBridgeWithdrawalBatchClaim =
  Nonce :: UInt64Nonce

record EthereumBridgeMultiSigUpdateClaim =
  Nonce :: UInt64Nonce

datatype EthereumClaim =
    ClaimBootstrapped EthereumBridgeBootstrappedClaim
  | ClaimDeposit EthereumBridgeDepositClaim
  | ClaimWithdrawalBatch EthereumBridgeWithdrawalBatchClaim
  | ClaimMultiSigUpdate EthereumBridgeMultiSigUpdateClaim

text \<open>
  Modelled from the spec: the enumeration \<^verbatim>\<open>types.ClaimType\<close> is declared outside the
  sources. The two values the client writes are kept by name; every other value of the
  enumeration is \<open>ClaimTypeOther\<close>.
\<close>

datatype ClaimType =
    ClaimTypeOrchestratorSignedMultiSigUpdate
  | ClaimTypeOrchestratorSignedWithdrawBatch
  | ClaimTypeOther nat

record MsgCreateEthereumClaims =
  EthereumChainID :: string
  BridgeContractAddress :: EthereumAddress
  Orchestrator :: AccAddress
  Claims :: "EthereumClaim list"

record MsgBridgeSignatureSubmission =
  Nonce :: UInt64Nonce
  ClaimType :: ClaimType
  Orchestrator :: AccAddress
  EthereumSignature :: bytes

datatype Msg =
    CreateEthereumClaims MsgCreateEthereumClaims
  | BridgeSignatureSubmission MsgBridgeSignatureSubmission

text \<open>
  Modelled from the spec: \<^verbatim>\<open>types.Valset\<close>, \<^verbatim>\<open>keeper.MultiSigUpdateResponse\<close> and
  \<^verbatim>\<open>types.OutgoingTxBatch\<close> are declared outside the sources. The spec's data model
  gives a valset a nonce, its ordered members (address and power) and the total power;
  a batch a nonce, its ordered transfers (destination, amount, token) and a reference to
  the valset version active when the batch was built; the response to
  \<^verbatim>\<open>lastObservedMultiSigUpdate\<close> carries a valset (the code reads \<^verbatim>\<open>updateRsp.Valset\<close>).
\<close>

record Valset =
  Nonce :: UInt64Nonce
  Members :: "(EthereumAddress \<times> uint64) list"
  TotalPower :: uint64

record MultiSigUpdateResponse =
  Valset :: Valset

record OutgoingTransferTx =
  Destination :: EthereumAddress
  TransferAmount :: uint64
  Token :: ERC20Token

record OutgoingTxBatch =
  Nonce :: UInt64Nonce
  Elements :: "OutgoingTransferTx list"
  BoundValset :: Valset

section \<open>Collaborators\<close>

text \<open>
  Everything the commands call that lives outside the file is a parameter: the client
  context (sender address, chain queries, broadcast), the codec, go-ethereum's key
  decoder, the cosmos address decoder, and the functions of the \<^verbatim>\<open>types\<close> package.
  A function that returns \<^verbatim>\<open>(value, error)\<close> is a sum with the error on the left;
  \<^verbatim>\<open>MustUnmarshalJSON\<close>, which panics on a payload it cannot decode, is an option.
\<close>

record deps =
  GetFromAddress :: AccAddress
  QueryWithData :: "string \<Rightarrow> error + bytes"
  HexToECDSA :: "string \<Rightarrow> error + PrivateKey"
  AccAddressFromBech32 :: "string \<Rightarrow> error + AccAddress"
  NewEthereumAddress :: "string \<Rightarrow> EthereumAddress"
  UInt64NonceFromString :: "string \<Rightarrow> error + UInt64Nonce"
  UnmarshalValset :: "bytes \<Rightarrow> Valset option"
  UnmarshalMultiSigUpdateResponse :: "bytes \<Rightarrow> MultiSigUpdateResponse option"
  UnmarshalOutgoingTxBatch :: "bytes \<Rightarrow> OutgoingTxBatch option"
  Valset_GetCheckpoint :: "Valset \<Rightarrow> bytes"
  BridgePeggyID :: bytes
  CheckpointHash ::
    "bytes \<Rightarrow> string \<Rightarrow> UInt64Nonce \<Rightarrow> OutgoingTransferTx list \<Rightarrow> bytes \<Rightarrow> error + bytes"
  NewEthereumSignature :: "bytes \<Rightarrow> PrivateKey \<Rightarrow> error + bytes"
  ValidateBasic :: "Msg \<Rightarrow> error option"
  GenerateOrBroadcastMsgs :: "Msg list \<Rightarrow> error option"

text \<open>
  Modelled from the spec: \<^verbatim>\<open>OutgoingTxBatch.GetCheckpoint\<close> is not among the sources.
  The spec makes the batch checkpoint a deterministic function of the peggy id, the tag
  \<^verbatim>\<open>transactionBatch\<close>, the batch nonce, the transfers and a valset checkpoint; the
  encoding and the hash are the parameter \<open>CheckpointHash\<close>. The valset is the
  method's argument, as in the call of line 332.
\<close>

definition OutgoingTxBatch_GetCheckpoint ::
    "deps \<Rightarrow> OutgoingTxBatch \<Rightarrow> Valset \<Rightarrow> error + bytes" where
  "OutgoingTxBatch_GetCheckpoint d b v =
     CheckpointHash d (BridgePeggyID d) ''transactionBatch''
       (OutgoingTxBatch.Nonce b) (Elements b) (Valset_GetCheckpoint d v)"

text \<open>
  The spec's words for the same checkpoint: the valset whose checkpoint enters the hash
  is the one bound to the batch when it was built.
\<close>

definition spec_batch_checkpoint :: "deps \<Rightarrow> OutgoingTxBatch \<Rightarrow> error + bytes" where
  "spec_batch_checkpoint d b =
     CheckpointHash d (BridgePeggyID d) ''transactionBatch''
       (OutgoingTxBatch.Nonce b) (Elements b) (Valset_GetCheckpoint d (BoundValset b))"

section \<open>The standard library functions the commands use\<close>

text \<open>
  \<^verbatim>\<open>strconv.ParseUint(s, 10, 64)\<close>: the digit loop of the Go library, on a 64-bit
  accumulator. A byte that is not a decimal digit is a syntax error; the two overflow
  tests (\<^verbatim>\<open>n >= cutoff\<close> before the multiplication, \<^verbatim>\<open>n1 < n || n1 > maxVal\<close> after
  the addition) are range errors, returned with the value \<^verbatim>\<open>maxVal\<close>.
\<close>

definition maxUint64 :: nat where
  "maxUint64 = 2 ^ 64 - 1"

fun ParseUint_loop :: "string \<Rightarrow> nat \<Rightarrow> nat \<times> error option" where
  "ParseUint_loop [] n = (n, None)"
| "ParseUint_loop (c # cs) n =
     (let k = (of_char c :: nat) in
      if k < 48 \<or> 57 < k then (0, Some ErrSyntax)
      else if n \<ge> maxUint64 div 10 + 1 then (maxUint64, Some ErrRange)
      else
        let n' = (n * 10) mod 2 ^ 64;
            n1 = (n' + (k - 48)) mod 2 ^ 64
        in if n1 < n' \<or> n1 > maxUint64 then (maxUint64, Some ErrRange)
           else ParseUint_loop cs n1)"

definition ParseUint :: "string \<Rightarrow> nat \<times> error option" where
  "ParseUint s = (if s = [] then (0, Some ErrSyntax) else ParseUint_loop s 0)"

text \<open>
  \<^verbatim>\<open>strconv.ParseInt(s, 10, 64)\<close>: an optional sign, then \<open>ParseUint\<close>; a range error
  of \<open>ParseUint\<close> is not returned at once but leaves \<^verbatim>\<open>un = maxVal\<close> for the cutoff
  tests. \<open>int64\<close> is the conversion to a signed 64-bit value, which wraps.
\<close>

definition int64 :: "int \<Rightarrow> int" where
  "int64 x = (x + 2 ^ 63) mod 2 ^ 64 - 2 ^ 63"

definition ParseInt :: "string \<Rightarrow> int \<times> error option" where
  "ParseInt s0 =
     (if s0 = [] then (0, Some ErrSyntax)
      else
        let neg = (hd s0 = CHR ''-'');
            s = (if hd s0 = CHR ''+'' \<or> hd s0 = CHR ''-'' then tl s0 else s0)
        in case ParseUint s of
             (un, err) \<Rightarrow>
               if err \<noteq> None \<and> err \<noteq> Some ErrRange then (0, err)
               else
                 let cutoff = (2 ^ 63 :: nat)
                 in if \<not> neg \<and> un \<ge> cutoff then (int cutoff - 1, Some ErrRange)
                    else if neg \<and> un > cutoff then (- int cutoff, Some ErrRange)
                    else
                      let n = int64 (int un)
                      in (if neg then int64 (- n) else n, None))"

text \<open>The conversion \<^verbatim>\<open>uint64(amount)\<close> of an \<^verbatim>\<open>int64\<close> (line 157): it wraps.\<close>

definition uint64_of_int64 :: "int \<Rightarrow> uint64" where
  "uint64_of_int64 i = nat (i mod 2 ^ 64)"

text \<open>\<^verbatim>\<open>strings.Split(s, sep)\<close> for a separator of one byte.\<close>

fun Split :: "string \<Rightarrow> char \<Rightarrow> string list" where
  "Split [] sep = [[]]"
| "Split (c # cs) sep =
     (if c = sep then [] # Split cs sep
      else (case Split cs sep of [] \<Rightarrow> [[c]] | w # ws \<Rightarrow> (c # w) # ws))"

text \<open>
  The decimal numeral of an integer, as a user types it on the command line
  (\<^verbatim>\<open>strconv.FormatInt(i, 10)\<close>). The commands do not call it; it names the inputs of
  the amount argument.
\<close>

fun FormatUint :: "nat \<Rightarrow> string" where
  "FormatUint n =
     (if n < 10 then [''0123456789'' ! n]
      else FormatUint (n div 10) @ [''0123456789'' ! (n mod 10)])"

declare FormatUint.simps [simp del]

definition FormatInt :: "int \<Rightarrow> string" where
  "FormatInt i = (if i < 0 then CHR ''-'' # FormatUint (nat (- i)) else FormatUint (nat i))"

section \<open>Runs\<close>

text \<open>
  A run of a command is the sequence of its calls that matter outside the process (the
  key decoder, a chain query, the signer, the basic validation of the message, the
  broadcaster), in order, and how the command ended: it returned (Go's \<^verbatim>\<open>nil\<close> is
  \<open>None\<close>) or it panicked.
\<close>

datatype event =
    CallHexToECDSA string
  | CallQueryWithData string
  | CallNewEthereumSignature bytes PrivateKey
  | CallValidateBasic Msg
  | CallGenerateOrBroadcastMsgs "Msg list"

datatype outcome = Returned "error option" | Panicked

type_synonym run = "event list \<times> outcome"

fun queried :: "event list \<Rightarrow> string list" where
  "queried [] = []"
| "queried (CallQueryWithData p # tr) = p # queried tr"
| "queried (_ # tr) = queried tr"

fun signedCheckpoints :: "event list \<Rightarrow> bytes list" where
  "signedCheckpoints [] = []"
| "signedCheckpoints (CallNewEthereumSignature c k # tr) = c # signedCheckpoints tr"
| "signedCheckpoints (_ # tr) = signedCheckpoints tr"

fun validated :: "event list \<Rightarrow> Msg list" where
  "validated [] = []"
| "validated (CallValidateBasic m # tr) = m # validated tr"
| "validated (_ # tr) = validated tr"

fun broadcasts :: "event list \<Rightarrow> Msg list list" where
  "broadcasts [] = []"
| "broadcasts (CallGenerateOrBroadcastMsgs ms # tr) = ms # broadcasts tr"
| "broadcasts (_ # tr) = broadcasts tr"

text \<open>The messages a run produced: those it validated and those it handed on.\<close>

definition produced :: "event list \<Rightarrow> Msg list" where
  "produced tr = validated tr @ concat (broadcasts tr)"

section \<open>The commands\<close>

definition parseNonce :: "deps \<Rightarrow> string \<Rightarrow> error + UInt64Nonce" where
  "parseNonce d nonceArg = UInt64NonceFromString d nonceArg"

text \<open>The loop of lines 83-89 over the comma-separated powers.\<close>

fun parsePowers :: "string list \<Rightarrow> uint64 list \<Rightarrow> error + uint64 list" where
  "parsePowers [] powers = Inr powers"
| "parsePowers (v # vs) powers =
     (case ParseUint v of
        (p, Some err) \<Rightarrow> Inl (Wrap err ''power'')
      | (p, None) \<Rightarrow> parsePowers vs (powers @ [p]))"

definition CmdSendETHBootstrapRequest :: "deps \<Rightarrow> string list \<Rightarrow> run" where
  "CmdSendETHBootstrapRequest d args =
     (if length args \<noteq> 7 then ([], Returned (Some (ErrArgs 7 (length args))))
      else
        let cosmosAddr = GetFromAddress d;
            ethChainID = args ! 0;
            ethContractAddress = args ! 1
        in case ParseUint (args ! 2) of
             (_, Some err) \<Rightarrow> ([], Returned (Some err))
           | (block, None) \<Rightarrow>
               let validators = map (NewEthereumAddress d) (Split (args ! 3) CHR '','')
               in (case parsePowers (Split (args ! 4) CHR '','') [] of
                    Inl err \<Rightarrow> ([], Returned (Some err))
                  | Inr powers \<Rightarrow>
                      (case ParseUint (args ! 6) of
                         (_, Some err) \<Rightarrow> ([], Returned (Some (Wrap err ''start threshold'')))
                       | (startThreshold, None) \<Rightarrow>
                           let msg = CreateEthereumClaims
                                 \<lparr>EthereumChainID = ethChainID,
                                  BridgeContractAddress = NewEthereumAddress d ethContractAddress,
                                  MsgCreateEthereumClaims.Orchestrator = cosmosAddr,
                                  Claims = [ClaimBootstrapped
                                    \<lparr>EthereumBridgeBootstrappedClaim.Nonce = 1,
                                     Block = block,
                                     AllowedValidatorSet = validators,
                                     ValidatorPowers = powers,
                                     PeggyID = args ! 5,
                                     StartThreshold = startThreshold\<rparr>]\<rparr>
                           in (case ValidateBasic d msg of
                                Some err \<Rightarrow> ([CallValidateBasic msg], Returned (Some err))
                              | None \<Rightarrow>
                                  ([CallValidateBasic msg, CallGenerateOrBroadcastMsgs [msg]],
                                   Returned (GenerateOrBroadcastMsgs d [msg]))))))"

definition CmdSendETHDepositRequest :: "deps \<Rightarrow> string list \<Rightarrow> run" where
  "CmdSendETHDepositRequest d args =
     (if length args \<noteq> 8 then ([], Returned (Some (ErrArgs 8 (length args))))
      else
        let cosmosAddr = GetFromAddress d;
            ethChainID = args ! 0;
            ethContractAddress = args ! 1
        in case parseNonce d (args ! 2) of
             Inl err \<Rightarrow> ([], Returned (Some err))
           | Inr nonce \<Rightarrow>
               (case AccAddressFromBech32 d (args ! 3) of
                  Inl err \<Rightarrow> ([], Returned (Some (Wrap err ''cosmos receiver'')))
                | Inr receiverAddr \<Rightarrow>
                    (case ParseInt (args ! 4) of
                       (_, Some err) \<Rightarrow> ([], Returned (Some (Wrap err ''amount'')))
                     | (amount, None) \<Rightarrow>
                         let tokenSymbol = args ! 5;
                             tokenContractAddr = NewEthereumAddress d (args ! 6);
                             ethSenderAddr = NewEthereumAddress d (args ! 7);
                             msg = CreateEthereumClaims
                               \<lparr>EthereumChainID = ethChainID,
                                BridgeContractAddress = NewEthereumAddress d ethContractAddress,
                                MsgCreateEthereumClaims.Orchestrator = cosmosAddr,
                                Claims = [ClaimDeposit
                                  \<lparr>EthereumBridgeDepositClaim.Nonce = nonce,
                                   ERC20Token = NewERC20Token (uint64_of_int64 amount)
                                                  tokenSymbol tokenContractAddr,
                                   EthereumSender = ethSenderAddr,
                                   CosmosReceiver = receiverAddr\<rparr>]\<rparr>
                         in (case ValidateBasic d msg of
                              Some err \<Rightarrow> ([CallValidateBasic msg], Returned (Some err))
                            | None \<Rightarrow>
                                ([CallValidateBasic msg, CallGenerateOrBroadcastMsgs [msg]],
                                 Returned (GenerateOrBroadcastMsgs d [msg]))))))"

definition CmdSendETHWithdrawalRequest :: "deps \<Rightarrow> string list \<Rightarrow> run" where
  "CmdSendETHWithdrawalRequest d args =
     (if length args \<noteq> 3 then ([], Returned (Some (ErrArgs 3 (length args))))
      else
        let cosmosAddr = GetFromAddress d;
            ethChainID = args ! 0;
            ethContractAddress = args ! 1
        in case parseNonce d (args ! 2) of
             Inl err \<Rightarrow> ([], Returned (Some err))
           | Inr nonce \<Rightarrow>
               let msg = CreateEthereumClaims
                     \<lparr>EthereumChainID = ethChainID,
                      BridgeContractAddress = NewEthereumAddress d ethContractAddress,
                      MsgCreateEthereumClaims.Orchestrator = cosmosAddr,
                      Claims = [ClaimWithdrawalBatch
                        \<lparr>EthereumBridgeWithdrawalBatchClaim.Nonce = nonce\<rparr>]\<rparr>
               in (case ValidateBasic d msg of
                    Some err \<Rightarrow> ([CallValidateBasic msg], Returned (Some err))
                  | None \<Rightarrow>
                      ([CallValidateBasic msg, CallGenerateOrBroadcastMsgs [msg]],
                       Returned (GenerateOrBroadcastMsgs d [msg]))))"

definition CmdSendETHMultiSigRequest :: "deps \<Rightarrow> string list \<Rightarrow> run" where
  "CmdSendETHMultiSigRequest d args =
     (if length args \<noteq> 3 then ([], Returned (Some (ErrArgs 3 (length args))))
      else
        let cosmosAddr = GetFromAddress d;
            ethChainID = args ! 0;
            ethContractAddress = NewEthereumAddress d (args ! 1)
        in case parseNonce d (args ! 2) of
             Inl err \<Rightarrow> ([], Returned (Some err))
           | Inr nonce \<Rightarrow>
               let msg = CreateEthereumClaims
                     \<lparr>EthereumChainID = ethChainID,
                      BridgeContractAddress = ethContractAddress,
                      MsgCreateEthereumClaims.Orchestrator = cosmosAddr,
                      Claims = [ClaimMultiSigUpdate
                        \<lparr>EthereumBridgeMultiSigUpdateClaim.Nonce = nonce\<rparr>]\<rparr>
               in (case ValidateBasic d msg of
                    Some err \<Rightarrow> ([CallValidateBasic msg], Returned (Some err))
                  | None \<Rightarrow>
                      ([CallValidateBasic msg, CallGenerateOrBroadcastMsgs [msg]],
                       Returned (GenerateOrBroadcastMsgs d [msg]))))"

text \<open>
  The two confirmation commands. \<^verbatim>\<open>args[1][2:]\<close> panics when the key argument has
  fewer than two bytes; \<^verbatim>\<open>MustUnmarshalJSON\<close> panics on a payload it cannot decode.
\<close>

definition CmdValsetConfirm :: "deps \<Rightarrow> string \<Rightarrow> string list \<Rightarrow> run" where
  "CmdValsetConfirm d storeKey args =
     (if length args \<noteq> 2 then ([], Returned (Some (ErrArgs 2 (length args))))
      else if length (args ! 1) < 2 then ([], Panicked)
      else
        let privKeyString = drop 2 (args ! 1);
            t1 = [CallHexToECDSA privKeyString]
        in case HexToECDSA d privKeyString of
             Inl err \<Rightarrow> (t1, Returned (Some err))
           | Inr privateKey \<Rightarrow>
               let nonce = args ! 0;
                   path = ''custom/'' @ storeKey @ ''/valsetRequest/'' @ nonce;
                   t2 = t1 @ [CallQueryWithData path]
               in (case QueryWithData d path of
                    Inl err \<Rightarrow> (t2, Returned (Some err))
                  | Inr res \<Rightarrow>
                      if length res = 0 then (t2, Returned (Some ErrNotFound))
                      else
                        (case UnmarshalValset d res of
                           None \<Rightarrow> (t2, Panicked)
                         | Some valset \<Rightarrow>
                             let checkpoint = Valset_GetCheckpoint d valset;
                                 t3 = t2 @ [CallNewEthereumSignature checkpoint privateKey]
                             in (case NewEthereumSignature d checkpoint privateKey of
                                  Inl err \<Rightarrow> (t3, Returned (Some err))
                                | Inr signature \<Rightarrow>
                                    let cosmosAddr = GetFromAddress d;
                                        msg = BridgeSignatureSubmission
                                          \<lparr>MsgBridgeSignatureSubmission.Nonce = Valset.Nonce valset,
                                           ClaimType = ClaimTypeOrchestratorSignedMultiSigUpdate,
                                           MsgBridgeSignatureSubmission.Orchestrator = cosmosAddr,
                                           EthereumSignature = signature\<rparr>
                                    in (case ValidateBasic d msg of
                                         Some err \<Rightarrow>
                                           (t3 @ [CallValidateBasic msg], Returned (Some err))
                                       | None \<Rightarrow>
                                           (t3 @ [CallValidateBasic msg,
                                                  CallGenerateOrBroadcastMsgs [msg]],
                                            Returned (GenerateOrBroadcastMsgs d [msg])))))))"

definition CmdOutgointTXBatchConfirm :: "deps \<Rightarrow> string \<Rightarrow> string list \<Rightarrow> run" where
  "CmdOutgointTXBatchConfirm d storeKey args =
     (if length args \<noteq> 2 then ([], Returned (Some (ErrArgs 2 (length args))))
      else if length (args ! 1) < 2 then ([], Panicked)
      else
        let privKeyString = drop 2 (args ! 1);
            t1 = [CallHexToECDSA privKeyString]
        in case HexToECDSA d privKeyString of
             Inl err \<Rightarrow> (t1, Returned (Some err))
           | Inr privateKey \<Rightarrow>
               let path1 = ''custom/'' @ storeKey @ ''/lastObservedMultiSigUpdate'';
                   t2 = t1 @ [CallQueryWithData path1]
               in (case QueryWithData d path1 of
                    Inl err \<Rightarrow> (t2, Returned (Some err))
                  | Inr res1 \<Rightarrow>
                      if length res1 = 0 then (t2, Returned (Some ErrNotFound))
                      else
                        (case UnmarshalMultiSigUpdateResponse d res1 of
                           None \<Rightarrow> (t2, Panicked)
                         | Some updateRsp \<Rightarrow>
                             let nonce = args ! 0;
                                 path2 = ''custom/'' @ storeKey @ ''/batch/'' @ nonce;
                                 t3 = t2 @ [CallQueryWithData path2]
                             in (case QueryWithData d path2 of
                                  Inl err \<Rightarrow> (t3, Returned (Some err))
                                | Inr res \<Rightarrow>
                                    if length res = 0 then (t3, Returned (Some ErrNotFound))
                                    else
                                      (case UnmarshalOutgoingTxBatch d res of
                                         None \<Rightarrow> (t3, Panicked)
                                       | Some batch \<Rightarrow>
                                           (case OutgoingTxBatch_GetCheckpoint d batch
                                                   (Valset updateRsp) of
                                              Inl err \<Rightarrow> (t3, Returned (Some err))
                                            | Inr checkpoint \<Rightarrow>
                                                let t4 = t3 @ [CallNewEthereumSignature
                                                                 checkpoint privateKey]
                                                in (case NewEthereumSignature d checkpoint
                                                          privateKey of
                                                     Inl err \<Rightarrow> (t4, Returned (Some err))
                                                   | Inr signature \<Rightarrow>
                                                       let cosmosAddr = GetFromAddress d;
                                                           msg = BridgeSignatureSubmission
                                                             \<lparr>MsgBridgeSignatureSubmission.Nonce =
                                                                OutgoingTxBatch.Nonce batch,
                                                              ClaimType =
                                                                ClaimTypeOrchestratorSignedWithdrawBatch,
                                                              MsgBridgeSignatureSubmission.Orchestrator =
                                                                cosmosAddr,
                                                              EthereumSignature = signature\<rparr>
                                                       in (case ValidateBasic d msg of
                                                            Some err \<Rightarrow>
                                                              (t4 @ [CallValidateBasic msg],
                                                               Returned (Some err))
                                                          | None \<Rightarrow>
                                                              (t4 @ [CallValidateBasic msg,
                                                                 CallGenerateOrBroadcastMsgs [msg]],
                                                               Returned
                                                                 (GenerateOrBroadcastMsgs d
                                                                    [msg]))))))))))"

section \<open>A concrete chain and concrete command lines\<close>

text \<open>
  The inputs at which the theorems below are instantiated. The chain holds valset 1
  (the members and powers of the spec's scenario), a later observed multisig update
  with valset 2, and batch 7, built while valset 1 was the active one. A key that is
  not stored answers with an empty payload. The collaborators are the simplest
  functions of the right shape: a key is 64 hex digits, a cosmos address starts with
  \<^verbatim>\<open>cosmos1\<close>, a checkpoint is the text of what it covers.
\<close>

definition valset_1 :: Valset where
  "valset_1 = \<lparr>Valset.Nonce = 1, Members = [(''0xA'', 50), (''0xB'', 30), (''0xC'', 20)],
                TotalPower = 100\<rparr>"

definition valset_2 :: Valset where
  "valset_2 = \<lparr>Valset.Nonce = 2, Members = [(''0xA'', 50), (''0xB'', 30), (''0xD'', 20)],
                TotalPower = 100\<rparr>"

definition batch_7 :: OutgoingTxBatch where
  "batch_7 =
     \<lparr>OutgoingTxBatch.Nonce = 7,
      Elements = [\<lparr>Destination = ''0xE'', TransferAmount = 5,
                   Token = NewERC20Token 5 ''DAI'' ''0xT''\<rparr>],
      BoundValset = valset_1\<rparr>"

definition sample_key :: string where
  "sample_key = ''0x4c0883a69102937d6231471b5dbb6204fe5129617082792ae468d01a3f362318''"

definition sample_deps :: deps where
  "sample_deps =
     \<lparr>GetFromAddress = ''orchestrator'',
      QueryWithData = (\<lambda>p.
        if p = ''custom/peggy/valsetRequest/1'' then Inr ''valset-1''
        else if p = ''custom/peggy/lastObservedMultiSigUpdate'' then Inr ''update-2''
        else if p = ''custom/peggy/batch/7'' then Inr ''batch-7''
        else Inr []),
      HexToECDSA = (\<lambda>s.
        if length s = 64 \<and> list_all (\<lambda>c. c \<in> set ''0123456789abcdef'') s then Inr s
        else Inl (ErrExternal ''invalid hex key'')),
      AccAddressFromBech32 = (\<lambda>s.
        if take 7 s = ''cosmos1'' then Inr (drop 7 s)
        else Inl (ErrExternal ''invalid bech32'')),
      NewEthereumAddress = (\<lambda>s. s),
      UInt64NonceFromString = (\<lambda>s.
        case ParseUint s of (v, None) \<Rightarrow> Inr v | (v, Some err) \<Rightarrow> Inl err),
      UnmarshalValset = (\<lambda>b. if b = ''valset-1'' then Some valset_1 else None),
      UnmarshalMultiSigUpdateResponse = (\<lambda>b.
        if b = ''update-2'' then Some \<lparr>Valset = valset_2\<rparr> else None),
      UnmarshalOutgoingTxBatch = (\<lambda>b. if b = ''batch-7'' then Some batch_7 else None),
      Valset_GetCheckpoint = (\<lambda>v.
        ''valset '' @ FormatUint (Valset.Nonce v) @ '':'' @ concat (map fst (Members v))),
      BridgePeggyID = ''foo'',
      CheckpointHash = (\<lambda>pid tag n ts vcp.
        Inr (pid @ ''|'' @ tag @ ''|'' @ FormatUint n @ ''|'' @
             concat (map Destination ts) @ ''|'' @ vcp)),
      NewEthereumSignature = (\<lambda>cp k. Inr (''signature over '' @ cp)),
      ValidateBasic = (\<lambda>m. None),
      GenerateOrBroadcastMsgs = (\<lambda>ms. None)\<rparr>"

text \<open>The same chain before anything was stored, and a client whose messages are refused.\<close>

definition empty_chain_deps :: deps where
  "empty_chain_deps = sample_deps\<lparr>QueryWithData := (\<lambda>p. Inr [])\<rparr>"

definition refusing_deps :: deps where
  "refusing_deps = sample_deps\<lparr>ValidateBasic := (\<lambda>m. Some (ErrExternal ''invalid message''))\<rparr>"

text \<open>
  The chain as it was when batch 7 was built: the last observed multisig update still
  carries valset 1. Everything else, the stored batch included, is as in \<open>sample_deps\<close>.
\<close>

definition at_build_deps :: deps where
  "at_build_deps = sample_deps
     \<lparr>QueryWithData := (\<lambda>p.
        if p = ''custom/peggy/lastObservedMultiSigUpdate'' then Inr ''update-1''
        else QueryWithData sample_deps p),
      UnmarshalMultiSigUpdateResponse := (\<lambda>b.
        if b = ''update-1'' then Some \<lparr>Valset = valset_1\<rparr> else None)\<rparr>"

definition batch_confirm_msg_at_build :: Msg where
  "batch_confirm_msg_at_build = BridgeSignatureSubmission
     \<lparr>MsgBridgeSignatureSubmission.Nonce = 7,
      ClaimType = ClaimTypeOrchestratorSignedWithdrawBatch,
      MsgBridgeSignatureSubmission.Orchestrator = ''orchestrator'',
      EthereumSignature =
        ''signature over foo|transactionBatch|7|0xE|valset 1:0xA0xB0xC''\<rparr>"

text \<open>The sample key as a user would give it who leaves out the \<^verbatim>\<open>0x\<close>.\<close>

definition unprefixed_key :: string where
  "unprefixed_key = ''4c0883a69102937d6231471b5dbb6204fe5129617082792ae468d01a3f362318''"

definition bootstrap_args :: "string list" where
  "bootstrap_args = [''5'', ''0xB1'', ''12'', ''0xA,0xB'', ''50,30'', ''foo'', ''66'']"

definition bootstrap_msg :: Msg where
  "bootstrap_msg = CreateEthereumClaims
     \<lparr>EthereumChainID = ''5'', BridgeContractAddress = ''0xB1'',
      MsgCreateEthereumClaims.Orchestrator = ''orchestrator'',
      Claims = [ClaimBootstrapped
        \<lparr>EthereumBridgeBootstrappedClaim.Nonce = 1, Block = 12,
         AllowedValidatorSet = [''0xA'', ''0xB''], ValidatorPowers = [50, 30],
         PeggyID = ''foo'', StartThreshold = 66\<rparr>]\<rparr>"

definition deposit_args :: "string \<Rightarrow> string list" where
  "deposit_args amount =
     [''5'', ''0xB1'', ''3'', ''cosmos1receiver'', amount, ''DAI'', ''0xT'', ''0xS'']"

definition deposit_msg :: "uint64 \<Rightarrow> Msg" where
  "deposit_msg amount = CreateEthereumClaims
     \<lparr>EthereumChainID = ''5'', BridgeContractAddress = ''0xB1'',
      MsgCreateEthereumClaims.Orchestrator = ''orchestrator'',
      Claims = [ClaimDeposit
        \<lparr>EthereumBridgeDepositClaim.Nonce = 3,
         ERC20Token = \<lparr>Amount = amount, Symbol = ''DAI'', TokenContractAddress = ''0xT''\<rparr>,
         EthereumSender = ''0xS'', CosmosReceiver = ''receiver''\<rparr>]\<rparr>"

definition withdrawal_msg :: Msg where
  "withdrawal_msg = CreateEthereumClaims
     \<lparr>EthereumChainID = ''5'', BridgeContractAddress = ''0xB1'',
      MsgCreateEthereumClaims.Orchestrator = ''orchestrator'',
      Claims = [ClaimWithdrawalBatch \<lparr>EthereumBridgeWithdrawalBatchClaim.Nonce = 4\<rparr>]\<rparr>"

definition multisig_msg :: Msg where
  "multisig_msg = CreateEthereumClaims
     \<lparr>EthereumChainID = ''5'', BridgeContractAddress = ''0xB1'',
      MsgCreateEthereumClaims.Orchestrator = ''orchestrator'',
      Claims = [ClaimMultiSigUpdate \<lparr>EthereumBridgeMultiSigUpdateClaim.Nonce = 2\<rparr>]\<rparr>"

definition valset_confirm_msg :: Msg where
  "valset_confirm_msg = BridgeSignatureSubmission
     \<lparr>MsgBridgeSignatureSubmission.Nonce = 1,
      ClaimType = ClaimTypeOrchestratorSignedMultiSigUpdate,
      MsgBridgeSignatureSubmission.Orchestrator = ''orchestrator'',
      EthereumSignature = ''signature over valset 1:0xA0xB0xC''\<rparr>"

definition batch_confirm_msg :: Msg where
  "batch_confirm_msg = BridgeSignatureSubmission
     \<lparr>MsgBridgeSignatureSubmission.Nonce = 7,
      ClaimType = ClaimTypeOrchestratorSignedWithdrawBatch,
      MsgBridgeSignatureSubmission.Orchestrator = ''orchestrator'',
      EthereumSignature =
        ''signature over foo|transactionBatch|7|0xE|valset 2:0xA0xB0xD''\<rparr>"

section \<open>The parsers on decimal numerals\<close>

lemma digit_char: "d < 10 \<Longrightarrow> of_char (''0123456789'' ! d) = (48 + d :: nat)"
proof -
  assume "d < 10"
  then have "d \<in> {0, 1, 2, 3, 4, 5, 6, 7, 8, 9}" by auto
  then show ?thesis by auto
qed

lemma ParseUint_loop_append:
  "ParseUint_loop (xs @ ys) n =
     (case ParseUint_loop xs n of
        (m, None) \<Rightarrow> ParseUint_loop ys m
      | (m, Some e) \<Rightarrow> (m, Some e))"
  by (induction xs arbitrary: n) (simp_all add: Let_def)

lemma ParseUint_loop_digit:
  assumes "d < 10" and "10 * q + d < 2 ^ 64"
  shows "ParseUint_loop [''0123456789'' ! d] q = (10 * q + d, None)"
proof -
  have q: "\<not> maxUint64 div 10 + 1 \<le> q" using assms by (simp add: maxUint64_def)
  have b1: "q * 10 < 18446744073709551616" using assms by simp
  have b2: "q * 10 + d < 18446744073709551616" using assms by (simp add: mult.commute)
  have le: "\<not> maxUint64 < q * 10 + d" using assms by (simp add: maxUint64_def)
  have k: "of_char (''0123456789'' ! d) = (48 + d :: nat)" using assms(1) by (rule digit_char)
  show ?thesis
    unfolding ParseUint_loop.simps k Let_def
    using assms(1) q b1 b2 le by (simp add: mult.commute)
qed

lemma ParseUint_loop_FormatUint:
  "n < 2 ^ 64 \<Longrightarrow> ParseUint_loop (FormatUint n) 0 = (n, None)"
proof (induction n rule: FormatUint.induct)
  case (1 n)
  show ?case
  proof (cases "n < 10")
    case True
    then have "ParseUint_loop [''0123456789'' ! n] 0 = (10 * 0 + n, None)"
      using "1.prems" by (intro ParseUint_loop_digit) simp_all
    with True show ?thesis by (simp add: FormatUint.simps [of n])
  next
    case False
    have small: "n div 10 < 2 ^ 64"
      using "1.prems" by (rule le_less_trans [OF div_le_dividend])
    have ih: "ParseUint_loop (FormatUint (n div 10)) 0 = (n div 10, None)"
      using "1.IH" [OF False small] .
    have "ParseUint_loop [''0123456789'' ! (n mod 10)] (n div 10) =
            (10 * (n div 10) + n mod 10, None)"
      using "1.prems" by (intro ParseUint_loop_digit) simp_all
    with False ih show ?thesis
      by (simp add: FormatUint.simps [of n] ParseUint_loop_append)
  qed
qed

lemma FormatUint_nonempty: "FormatUint n \<noteq> []"
  by (simp add: FormatUint.simps [of n])

lemma ParseUint_FormatUint: "n < 2 ^ 64 \<Longrightarrow> ParseUint (FormatUint n) = (n, None)"
  by (simp add: ParseUint_def FormatUint_nonempty ParseUint_loop_FormatUint)

lemma ParseInt_FormatInt_negative:
  assumes "- (2 ^ 63) \<le> a" and "a < 0"
  shows "ParseInt (FormatInt a) = (a, None)"
proof -
  define un where "un = nat (- a)"
  have un: "un \<le> 2 ^ 63" "0 < un" "int un = - a" using assms by (auto simp: un_def)
  have p: "ParseUint (FormatUint un) = (un, None)"
    using un(1) by (intro ParseUint_FormatUint) simp
  have w: "int64 (- int64 (int un)) = a"
  proof (cases "un = 2 ^ 63")
    case True
    then have "a = - (2 ^ 63)" using un(3) by simp
    with True show ?thesis by (simp add: int64_def)
  next
    case False
    then have lt: "un < 2 ^ 63" using un(1) by simp
    then have "int un < 2 ^ 63" by (metis of_nat_less_iff of_nat_numeral of_nat_power)
    then have "int64 (int un) = int un" by (simp add: int64_def)
    moreover have "int64 (- int un) = - int un"
      using \<open>int un < 2 ^ 63\<close> un(2) by (simp add: int64_def)
    ultimately show ?thesis using un(3) by simp
  qed
  show ?thesis
    using assms un(1) w by (simp add: ParseInt_def FormatInt_def un_def [symmetric] p Let_def)
qed

lemma uint64_of_negative:
  assumes "- (2 ^ 63) \<le> a" and "a < 0"
  shows "uint64_of_int64 a = nat (a + 2 ^ 64)"
proof -
  have "(a + 2 ^ 64) mod 2 ^ 64 = a + 2 ^ 64"
    using assms by (intro mod_pos_pos_trivial) auto
  moreover have "(a + 2 ^ 64) mod 2 ^ 64 = a mod 2 ^ 64" by simp
  ultimately have "a mod 2 ^ 64 = a + 2 ^ 64" by simp
  then show ?thesis by (simp add: uint64_of_int64_def)
qed

lemma ParseUint_small:
  "ParseUint ''1'' = (1, None)" "ParseUint ''2'' = (2, None)" "ParseUint ''3'' = (3, None)"
  "ParseUint ''4'' = (4, None)" "ParseUint ''7'' = (7, None)" "ParseUint ''12'' = (12, None)"
  "ParseUint ''30'' = (30, None)" "ParseUint ''50'' = (50, None)" "ParseUint ''66'' = (66, None)"
  by (simp_all add: ParseUint_def maxUint64_def)

lemma parser_errors:
  "ParseUint ''x'' = (0, Some ErrSyntax)"
  "ParseUint ''-1'' = (0, Some ErrSyntax)"
  "ParseInt ''1e3'' = (0, Some ErrSyntax)"
  "parsePowers (Split ''50,x'' CHR '','') [] = Inl (Wrap ErrSyntax ''power'')"
  "parsePowers (Split ''50,30'' CHR '','') [] = Inr [50, 30]"
  by (simp_all add: ParseInt_def ParseUint_def maxUint64_def)

section \<open>The concrete chain, evaluated\<close>

lemma sample_deps_sel:
  "GetFromAddress sample_deps = ''orchestrator''"
  "QueryWithData sample_deps ''custom/peggy/valsetRequest/1'' = Inr ''valset-1''"
  "QueryWithData sample_deps ''custom/peggy/valsetRequest/9'' = Inr []"
  "QueryWithData sample_deps ''custom/peggy/lastObservedMultiSigUpdate'' = Inr ''update-2''"
  "QueryWithData sample_deps ''custom/peggy/batch/7'' = Inr ''batch-7''"
  "QueryWithData sample_deps ''custom/peggy/batch/9'' = Inr []"
  "HexToECDSA sample_deps (drop 2 sample_key) = Inr (drop 2 sample_key)"
  "AccAddressFromBech32 sample_deps ''cosmos1receiver'' = Inr ''receiver''"
  "NewEthereumAddress sample_deps s = s"
  "UInt64NonceFromString sample_deps s =
     (case ParseUint s of (v, None) \<Rightarrow> Inr v | (v, Some err) \<Rightarrow> Inl err)"
  "UnmarshalValset sample_deps ''valset-1'' = Some valset_1"
  "UnmarshalMultiSigUpdateResponse sample_deps ''update-2'' = Some \<lparr>Valset = valset_2\<rparr>"
  "UnmarshalOutgoingTxBatch sample_deps ''batch-7'' = Some batch_7"
  "Valset_GetCheckpoint sample_deps valset_1 = ''valset 1:0xA0xB0xC''"
  "Valset_GetCheckpoint sample_deps valset_2 = ''valset 2:0xA0xB0xD''"
  "BridgePeggyID sample_deps = ''foo''"
  "CheckpointHash sample_deps ''foo'' ''transactionBatch'' 7 (Elements batch_7) vcp =
     Inr (''foo|transactionBatch|7|0xE|'' @ vcp)"
  "NewEthereumSignature sample_deps cp k = Inr (''signature over '' @ cp)"
  "ValidateBasic sample_deps m = None"
  "GenerateOrBroadcastMsgs sample_deps ms = None"
  by (simp_all add: sample_deps_def sample_key_def valset_1_def valset_2_def batch_7_def
        FormatUint.simps)

lemma sample_key_length: "\<not> length sample_key < 2"
  by (simp add: sample_key_def)

lemma bootstrap_run:
  "CmdSendETHBootstrapRequest sample_deps bootstrap_args =
     ([CallValidateBasic bootstrap_msg, CallGenerateOrBroadcastMsgs [bootstrap_msg]],
      Returned None)"
  by (simp add: CmdSendETHBootstrapRequest_def bootstrap_args_def bootstrap_msg_def
        ParseUint_small sample_deps_sel Let_def)

lemma valset_confirm_run:
  "CmdValsetConfirm sample_deps ''peggy'' [''1'', sample_key] =
     ([CallHexToECDSA (drop 2 sample_key),
       CallQueryWithData ''custom/peggy/valsetRequest/1'',
       CallNewEthereumSignature ''valset 1:0xA0xB0xC'' (drop 2 sample_key),
       CallValidateBasic valset_confirm_msg,
       CallGenerateOrBroadcastMsgs [valset_confirm_msg]], Returned None)"
proof -
  have n: "Valset.Nonce valset_1 = 1" by (simp add: valset_1_def)
  show ?thesis
    by (simp add: CmdValsetConfirm_def sample_deps_sel Let_def sample_key_length n
          valset_confirm_msg_def)
qed

lemma batch_confirm_run:
  "CmdOutgointTXBatchConfirm sample_deps ''peggy'' [''7'', sample_key] =
     ([CallHexToECDSA (drop 2 sample_key),
       CallQueryWithData ''custom/peggy/lastObservedMultiSigUpdate'',
       CallQueryWithData ''custom/peggy/batch/7'',
       CallNewEthereumSignature ''foo|transactionBatch|7|0xE|valset 2:0xA0xB0xD''
         (drop 2 sample_key),
       CallValidateBasic batch_confirm_msg,
       CallGenerateOrBroadcastMsgs [batch_confirm_msg]], Returned None)"
proof -
  have n: "OutgoingTxBatch.Nonce batch_7 = 7" by (simp add: batch_7_def)
  show ?thesis
    by (simp add: CmdOutgointTXBatchConfirm_def OutgoingTxBatch_GetCheckpoint_def
          sample_deps_sel Let_def sample_key_length n batch_confirm_msg_def)
qed

section \<open>The claims built by the four observation commands\<close>

text \<open>
  C2. The bootstrap command produces a message (validates it, or hands it to the
  broadcaster) exactly when it is given seven arguments of which the block, the powers
  and the start threshold parse, and the message is then the \<^verbatim>\<open>MsgCreateEthereumClaims\<close>
  with exactly one claim, the \<^verbatim>\<open>EthereumBridgeBootstrappedClaim\<close> built from the
  arguments, whose nonce is 1 whatever the arguments are.
\<close>

theorem bootstrap_claim_nonce_is_one:
  "m \<in> set (produced (fst (CmdSendETHBootstrapRequest d args))) \<longleftrightarrow>
     length args = 7 \<and>
     (\<exists>block powers startThreshold.
        ParseUint (args ! 2) = (block, None) \<and>
        parsePowers (Split (args ! 4) CHR '','') [] = Inr powers \<and>
        ParseUint (args ! 6) = (startThreshold, None) \<and>
        m = CreateEthereumClaims
              \<lparr>EthereumChainID = args ! 0,
               BridgeContractAddress = NewEthereumAddress d (args ! 1),
               MsgCreateEthereumClaims.Orchestrator = GetFromAddress d,
               Claims = [ClaimBootstrapped
                 \<lparr>EthereumBridgeBootstrappedClaim.Nonce = 1,
                  Block = block,
                  AllowedValidatorSet =
                    map (NewEthereumAddress d) (Split (args ! 3) CHR '',''),
                  ValidatorPowers = powers,
                  PeggyID = args ! 5,
                  StartThreshold = startThreshold\<rparr>]\<rparr>)"
  by (auto simp: CmdSendETHBootstrapRequest_def produced_def Let_def
           split: if_splits prod.splits option.splits sum.splits)

theorem bootstrap_claim_nonce_is_one_witness:
  "bootstrap_msg \<in>
     set (produced (fst (CmdSendETHBootstrapRequest sample_deps bootstrap_args)))"
  by (simp add: bootstrap_claim_nonce_is_one bootstrap_args_def bootstrap_msg_def
        ParseUint_small sample_deps_sel)

text \<open>
  C6. The deposit command produces a message exactly when it is given eight arguments
  of which the nonce, the receiver and the amount parse, and the message is then the
  \<^verbatim>\<open>MsgCreateEthereumClaims\<close> with the single claim \<^verbatim>\<open>EthereumBridgeDepositClaim\<close> whose
  nonce is the parsed nonce argument, whose receiver is the decoded bech32 argument,
  whose token is built from the amount, the symbol and the token contract address, and
  whose sender is the sender address argument.
\<close>

theorem deposit_claim_fields:
  "m \<in> set (produced (fst (CmdSendETHDepositRequest d args))) \<longleftrightarrow>
     length args = 8 \<and>
     (\<exists>nonce receiverAddr amount.
        parseNonce d (args ! 2) = Inr nonce \<and>
        AccAddressFromBech32 d (args ! 3) = Inr receiverAddr \<and>
        ParseInt (args ! 4) = (amount, None) \<and>
        m = CreateEthereumClaims
              \<lparr>EthereumChainID = args ! 0,
               BridgeContractAddress = NewEthereumAddress d (args ! 1),
               MsgCreateEthereumClaims.Orchestrator = GetFromAddress d,
               Claims = [ClaimDeposit
                 \<lparr>EthereumBridgeDepositClaim.Nonce = nonce,
                  ERC20Token = NewERC20Token (uint64_of_int64 amount) (args ! 5)
                                 (NewEthereumAddress d (args ! 6)),
                  EthereumSender = NewEthereumAddress d (args ! 7),
                  CosmosReceiver = receiverAddr\<rparr>]\<rparr>)"
  by (auto simp: CmdSendETHDepositRequest_def produced_def Let_def
           split: if_splits prod.splits option.splits sum.splits)

theorem deposit_claim_fields_witness:
  "deposit_msg 12 \<in>
     set (produced (fst (CmdSendETHDepositRequest sample_deps (deposit_args ''12''))))"
proof -
  have amount: "ParseInt ''12'' = (12, None)"
    by (simp add: ParseInt_def ParseUint_small int64_def)
  show ?thesis
    by (simp add: deposit_claim_fields deposit_args_def deposit_msg_def parseNonce_def
          sample_deps_sel ParseUint_small amount NewERC20Token_def uint64_of_int64_def)
qed

text \<open>
  C7. The withdrawal command and the multisig-update command produce a message exactly
  when they are given three arguments of which the nonce parses, and the message then
  holds exactly one claim, which carries the parsed nonce and nothing else.
\<close>

theorem nonce_only_claims:
  "(m \<in> set (produced (fst (CmdSendETHWithdrawalRequest d args))) \<longleftrightarrow>
      length args = 3 \<and>
      (\<exists>nonce. parseNonce d (args ! 2) = Inr nonce \<and>
         m = CreateEthereumClaims
               \<lparr>EthereumChainID = args ! 0,
                BridgeContractAddress = NewEthereumAddress d (args ! 1),
                MsgCreateEthereumClaims.Orchestrator = GetFromAddress d,
                Claims = [ClaimWithdrawalBatch
                  \<lparr>EthereumBridgeWithdrawalBatchClaim.Nonce = nonce\<rparr>]\<rparr>)) \<and>
   (m' \<in> set (produced (fst (CmdSendETHMultiSigRequest d args'))) \<longleftrightarrow>
      length args' = 3 \<and>
      (\<exists>nonce. parseNonce d (args' ! 2) = Inr nonce \<and>
         m' = CreateEthereumClaims
               \<lparr>EthereumChainID = args' ! 0,
                BridgeContractAddress = NewEthereumAddress d (args' ! 1),
                MsgCreateEthereumClaims.Orchestrator = GetFromAddress d,
                Claims = [ClaimMultiSigUpdate
                  \<lparr>EthereumBridgeMultiSigUpdateClaim.Nonce = nonce\<rparr>]\<rparr>))"
  by (auto simp: CmdSendETHWithdrawalRequest_def CmdSendETHMultiSigRequest_def produced_def
           Let_def split: if_splits prod.splits option.splits sum.splits)

theorem nonce_only_claims_witness:
  "withdrawal_msg \<in>
     set (produced (fst (CmdSendETHWithdrawalRequest sample_deps [''5'', ''0xB1'', ''4'']))) \<and>
   multisig_msg \<in>
     set (produced (fst (CmdSendETHMultiSigRequest sample_deps [''5'', ''0xB1'', ''2''])))"
  using nonce_only_claims [of withdrawal_msg sample_deps "[''5'', ''0xB1'', ''4'']"
          multisig_msg "[''5'', ''0xB1'', ''2'']"]
  by (simp add: withdrawal_msg_def multisig_msg_def parseNonce_def sample_deps_sel
        ParseUint_small)

text \<open>
  C8. The amount of a deposit is read as a signed 64-bit decimal and converted to
  \<^verbatim>\<open>uint64\<close>: for every \<open>a\<close> from \<open>- 2 ^ 63\<close> to \<open>- 1\<close>, the decimal numeral of \<open>a\<close> is
  parsed without error to \<open>a\<close>, and, the nonce and the receiver being accepted, the
  command is not stopped by the amount: the one message it validates, and broadcasts
  when the validation passes, carries the amount \<open>a + 2 ^ 64\<close>.
\<close>

theorem deposit_negative_amount_wraps:
  assumes "- (2 ^ 63) \<le> a" and "a < 0"
    and "length args = 8" and "args ! 4 = FormatInt a"
    and "parseNonce d (args ! 2) = Inr nonce"
    and "AccAddressFromBech32 d (args ! 3) = Inr receiverAddr"
    and "msg = CreateEthereumClaims
           \<lparr>EthereumChainID = args ! 0,
            BridgeContractAddress = NewEthereumAddress d (args ! 1),
            MsgCreateEthereumClaims.Orchestrator = GetFromAddress d,
            Claims = [ClaimDeposit
              \<lparr>EthereumBridgeDepositClaim.Nonce = nonce,
               ERC20Token = \<lparr>Amount = nat (a + 2 ^ 64), Symbol = args ! 5,
                              TokenContractAddress = NewEthereumAddress d (args ! 6)\<rparr>,
               EthereumSender = NewEthereumAddress d (args ! 7),
               CosmosReceiver = receiverAddr\<rparr>]\<rparr>"
  shows "ParseInt (args ! 4) = (a, None) \<and>
         validated (fst (CmdSendETHDepositRequest d args)) = [msg] \<and>
         broadcasts (fst (CmdSendETHDepositRequest d args)) =
           (if ValidateBasic d msg = None then [[msg]] else [])"
proof -
  have p: "ParseInt (args ! 4) = (a, None)"
    using assms(1,2,4) by (simp add: ParseInt_FormatInt_negative)
  have u: "uint64_of_int64 a = nat (a + 2 ^ 64)"
    using assms(1,2) by (rule uint64_of_negative)
  show ?thesis
    using assms(3,5,6,7) p
    by (simp add: CmdSendETHDepositRequest_def Let_def u NewERC20Token_def
          split: option.splits)
qed

theorem deposit_negative_amount_wraps_witness:
  "- (2 ^ 63) \<le> (- 1 :: int) \<and> (- 1 :: int) < 0 \<and>
   length (deposit_args ''-1'') = 8 \<and> deposit_args ''-1'' ! 4 = FormatInt (- 1) \<and>
   parseNonce sample_deps (deposit_args ''-1'' ! 2) = Inr 3 \<and>
   AccAddressFromBech32 sample_deps (deposit_args ''-1'' ! 3) = Inr ''receiver'' \<and>
   ParseInt ''-1'' = (- 1, None) \<and>
   validated (fst (CmdSendETHDepositRequest sample_deps (deposit_args ''-1''))) =
     [deposit_msg 18446744073709551615] \<and>
   broadcasts (fst (CmdSendETHDepositRequest sample_deps (deposit_args ''-1''))) =
     [[deposit_msg 18446744073709551615]]"
proof -
  have h1: "- (2 ^ 63) \<le> (- 1 :: int)" and h2: "(- 1 :: int) < 0" by simp_all
  have h3: "length (deposit_args ''-1'') = 8" by (simp add: deposit_args_def)
  have h4: "deposit_args ''-1'' ! 4 = FormatInt (- 1)"
    by (simp add: deposit_args_def FormatInt_def FormatUint.simps)
  have h5: "parseNonce sample_deps (deposit_args ''-1'' ! 2) = Inr 3"
    by (simp add: deposit_args_def parseNonce_def sample_deps_sel ParseUint_small)
  have h6: "AccAddressFromBech32 sample_deps (deposit_args ''-1'' ! 3) = Inr ''receiver''"
    by (simp add: deposit_args_def sample_deps_sel)
  have h7: "deposit_msg 18446744073709551615 = CreateEthereumClaims
           \<lparr>EthereumChainID = deposit_args ''-1'' ! 0,
            BridgeContractAddress = NewEthereumAddress sample_deps (deposit_args ''-1'' ! 1),
            MsgCreateEthereumClaims.Orchestrator = GetFromAddress sample_deps,
            Claims = [ClaimDeposit
              \<lparr>EthereumBridgeDepositClaim.Nonce = 3,
               ERC20Token = \<lparr>Amount = nat (- 1 + 2 ^ 64), Symbol = deposit_args ''-1'' ! 5,
                              TokenContractAddress =
                                NewEthereumAddress sample_deps (deposit_args ''-1'' ! 6)\<rparr>,
               EthereumSender = NewEthereumAddress sample_deps (deposit_args ''-1'' ! 7),
               CosmosReceiver = ''receiver''\<rparr>]\<rparr>"
    by (simp add: deposit_msg_def deposit_args_def sample_deps_sel)
  have a4: "deposit_args ''-1'' ! 4 = ''-1''" by (simp add: deposit_args_def)
  have v: "ValidateBasic sample_deps (deposit_msg 18446744073709551615) = None"
    by (simp add: sample_deps_sel)
  have c: "ParseInt ''-1'' = (- 1, None) \<and>
     validated (fst (CmdSendETHDepositRequest sample_deps (deposit_args ''-1''))) =
       [deposit_msg 18446744073709551615] \<and>
     broadcasts (fst (CmdSendETHDepositRequest sample_deps (deposit_args ''-1''))) =
       [[deposit_msg 18446744073709551615]]"
    using deposit_negative_amount_wraps [OF h1 h2 h3 h4 h5 h6 h7]
    by (simp only: a4 v if_True simp_thms)
  show ?thesis using h1 h2 h3 h4 h5 h6 c by blast
qed

section \<open>More runs on the concrete chain\<close>

lemma batch_7_sel:
  "OutgoingTxBatch.Nonce batch_7 = 7" "BoundValset batch_7 = valset_1"
  by (simp_all add: batch_7_def)

lemma at_build_deps_sel:
  "QueryWithData at_build_deps ''custom/peggy/batch/7'' = Inr ''batch-7''"
  "UnmarshalOutgoingTxBatch at_build_deps ''batch-7'' = Some batch_7"
  "Valset_GetCheckpoint at_build_deps = Valset_GetCheckpoint sample_deps"
  "BridgePeggyID at_build_deps = ''foo''"
  "CheckpointHash at_build_deps = CheckpointHash sample_deps"
  by (simp_all add: at_build_deps_def sample_deps_sel)

lemma batch_confirm_run_at_build:
  "CmdOutgointTXBatchConfirm at_build_deps ''peggy'' [''7'', sample_key] =
     ([CallHexToECDSA (drop 2 sample_key),
       CallQueryWithData ''custom/peggy/lastObservedMultiSigUpdate'',
       CallQueryWithData ''custom/peggy/batch/7'',
       CallNewEthereumSignature ''foo|transactionBatch|7|0xE|valset 1:0xA0xB0xC''
         (drop 2 sample_key),
       CallValidateBasic batch_confirm_msg_at_build,
       CallGenerateOrBroadcastMsgs [batch_confirm_msg_at_build]], Returned None)"
  by (simp add: CmdOutgointTXBatchConfirm_def OutgoingTxBatch_GetCheckpoint_def
        at_build_deps_def sample_deps_sel Let_def sample_key_length batch_7_sel
        batch_confirm_msg_at_build_def)

lemma valset_confirm_run_unknown_nonce:
  "CmdValsetConfirm sample_deps ''peggy'' [''9'', sample_key] =
     ([CallHexToECDSA (drop 2 sample_key),
       CallQueryWithData ''custom/peggy/valsetRequest/9''], Returned (Some ErrNotFound))"
  by (simp add: CmdValsetConfirm_def sample_deps_sel Let_def sample_key_length)

lemma batch_confirm_run_unknown_nonce:
  "CmdOutgointTXBatchConfirm sample_deps ''peggy'' [''9'', sample_key] =
     ([CallHexToECDSA (drop 2 sample_key),
       CallQueryWithData ''custom/peggy/lastObservedMultiSigUpdate'',
       CallQueryWithData ''custom/peggy/batch/9''], Returned (Some ErrNotFound))"
  by (simp add: CmdOutgointTXBatchConfirm_def sample_deps_sel Let_def sample_key_length)

lemma empty_chain_deps_sel:
  "QueryWithData empty_chain_deps p = Inr []"
  "HexToECDSA empty_chain_deps (drop 2 sample_key) = Inr (drop 2 sample_key)"
  by (simp_all add: empty_chain_deps_def sample_deps_sel)

lemma batch_confirm_run_empty_chain:
  "CmdOutgointTXBatchConfirm empty_chain_deps ''peggy'' [''7'', sample_key] =
     ([CallHexToECDSA (drop 2 sample_key),
       CallQueryWithData ''custom/peggy/lastObservedMultiSigUpdate''],
      Returned (Some ErrNotFound))"
  by (simp add: CmdOutgointTXBatchConfirm_def empty_chain_deps_sel Let_def sample_key_length)

lemma refused_bootstrap_validated:
  "validated (fst (CmdSendETHBootstrapRequest refusing_deps bootstrap_args)) = [bootstrap_msg]"
  by (simp add: CmdSendETHBootstrapRequest_def bootstrap_args_def bootstrap_msg_def
        ParseUint_small refusing_deps_def sample_deps_sel Let_def)

section \<open>The signature submissions built by the two confirmation commands\<close>

text \<open>
  C5. A \<^verbatim>\<open>MsgBridgeSignatureSubmission\<close> is produced by the two confirmation commands
  only (the four observation commands produce \<^verbatim>\<open>MsgCreateEthereumClaims\<close>). The one of
  valset-confirm has the claim type of a signed multisig-set update and the nonce of
  the valset decoded from the answer to \<^verbatim>\<open>valsetRequest/{nonce}\<close>; the one of
  batch-confirm has the claim type of a signed withdraw batch and the nonce of the batch
  decoded from the answer to \<^verbatim>\<open>batch/{nonce}\<close>.
\<close>

theorem signature_submission_type_and_nonce:
  "(m \<in> set (produced (fst (CmdValsetConfirm d storeKey args))) \<longrightarrow>
      (\<exists>res valset s.
         QueryWithData d (''custom/'' @ storeKey @ ''/valsetRequest/'' @ args ! 0) = Inr res \<and>
         UnmarshalValset d res = Some valset \<and>
         m = BridgeSignatureSubmission s \<and>
         ClaimType s = ClaimTypeOrchestratorSignedMultiSigUpdate \<and>
         MsgBridgeSignatureSubmission.Nonce s = Valset.Nonce valset)) \<and>
   (m \<in> set (produced (fst (CmdOutgointTXBatchConfirm d storeKey args))) \<longrightarrow>
      (\<exists>res batch s.
         QueryWithData d (''custom/'' @ storeKey @ ''/batch/'' @ args ! 0) = Inr res \<and>
         UnmarshalOutgoingTxBatch d res = Some batch \<and>
         m = BridgeSignatureSubmission s \<and>
         ClaimType s = ClaimTypeOrchestratorSignedWithdrawBatch \<and>
         MsgBridgeSignatureSubmission.Nonce s = OutgoingTxBatch.Nonce batch)) \<and>
   (m \<in> set (produced (fst (CmdSendETHBootstrapRequest d args))) \<or>
    m \<in> set (produced (fst (CmdSendETHDepositRequest d args))) \<or>
    m \<in> set (produced (fst (CmdSendETHWithdrawalRequest d args))) \<or>
    m \<in> set (produced (fst (CmdSendETHMultiSigRequest d args))) \<longrightarrow>
      (\<exists>c. m = CreateEthereumClaims c))"
proof (intro conjI impI)
  assume "m \<in> set (produced (fst (CmdValsetConfirm d storeKey args)))"
  then show "\<exists>res valset s.
         QueryWithData d (''custom/'' @ storeKey @ ''/valsetRequest/'' @ args ! 0) = Inr res \<and>
         UnmarshalValset d res = Some valset \<and>
         m = BridgeSignatureSubmission s \<and>
         ClaimType s = ClaimTypeOrchestratorSignedMultiSigUpdate \<and>
         MsgBridgeSignatureSubmission.Nonce s = Valset.Nonce valset"
    by (auto simp: CmdValsetConfirm_def produced_def Let_def
             split: if_splits option.splits sum.splits)
next
  assume "m \<in> set (produced (fst (CmdOutgointTXBatchConfirm d storeKey args)))"
  then show "\<exists>res batch s.
         QueryWithData d (''custom/'' @ storeKey @ ''/batch/'' @ args ! 0) = Inr res \<and>
         UnmarshalOutgoingTxBatch d res = Some batch \<and>
         m = BridgeSignatureSubmission s \<and>
         ClaimType s = ClaimTypeOrchestratorSignedWithdrawBatch \<and>
         MsgBridgeSignatureSubmission.Nonce s = OutgoingTxBatch.Nonce batch"
    by (auto simp: CmdOutgointTXBatchConfirm_def produced_def Let_def
             split: if_splits option.splits sum.splits)
next
  assume "m \<in> set (produced (fst (CmdSendETHBootstrapRequest d args))) \<or>
    m \<in> set (produced (fst (CmdSendETHDepositRequest d args))) \<or>
    m \<in> set (produced (fst (CmdSendETHWithdrawalRequest d args))) \<or>
    m \<in> set (produced (fst (CmdSendETHMultiSigRequest d args)))"
  then show "\<exists>c. m = CreateEthereumClaims c"
    by (auto simp: CmdSendETHBootstrapRequest_def CmdSendETHDepositRequest_def
          CmdSendETHWithdrawalRequest_def CmdSendETHMultiSigRequest_def produced_def Let_def
          split: if_splits prod.splits option.splits sum.splits)
qed

theorem signature_submission_type_and_nonce_witness:
  "valset_confirm_msg \<in>
     set (produced (fst (CmdValsetConfirm sample_deps ''peggy'' [''1'', sample_key]))) \<and>
   (\<exists>res valset s.
      QueryWithData sample_deps
        (''custom/'' @ ''peggy'' @ ''/valsetRequest/'' @ [''1'', sample_key] ! 0) = Inr res \<and>
      UnmarshalValset sample_deps res = Some valset \<and>
      valset_confirm_msg = BridgeSignatureSubmission s \<and>
      ClaimType s = ClaimTypeOrchestratorSignedMultiSigUpdate \<and>
      MsgBridgeSignatureSubmission.Nonce s = Valset.Nonce valset) \<and>
   batch_confirm_msg \<in>
     set (produced (fst (CmdOutgointTXBatchConfirm sample_deps ''peggy'' [''7'', sample_key]))) \<and>
   (\<exists>res batch s.
      QueryWithData sample_deps
        (''custom/'' @ ''peggy'' @ ''/batch/'' @ [''7'', sample_key] ! 0) = Inr res \<and>
      UnmarshalOutgoingTxBatch sample_deps res = Some batch \<and>
      batch_confirm_msg = BridgeSignatureSubmission s \<and>
      ClaimType s = ClaimTypeOrchestratorSignedWithdrawBatch \<and>
      MsgBridgeSignatureSubmission.Nonce s = OutgoingTxBatch.Nonce batch) \<and>
   bootstrap_msg \<in> set (produced (fst (CmdSendETHBootstrapRequest sample_deps bootstrap_args))) \<and>
   (\<exists>c. bootstrap_msg = CreateEthereumClaims c)"
proof -
  have v: "valset_confirm_msg \<in>
      set (produced (fst (CmdValsetConfirm sample_deps ''peggy'' [''1'', sample_key])))"
    by (simp add: valset_confirm_run produced_def)
  have b: "batch_confirm_msg \<in>
      set (produced (fst (CmdOutgointTXBatchConfirm sample_deps ''peggy'' [''7'', sample_key])))"
    by (simp add: batch_confirm_run produced_def)
  have o: "bootstrap_msg \<in>
      set (produced (fst (CmdSendETHBootstrapRequest sample_deps bootstrap_args)))"
    by (simp add: bootstrap_run produced_def)
  note t1 = signature_submission_type_and_nonce
              [of valset_confirm_msg sample_deps "''peggy''" "[''1'', sample_key]",
               THEN conjunct1, THEN mp, OF v]
  note t2 = signature_submission_type_and_nonce
              [of batch_confirm_msg sample_deps "''peggy''" "[''7'', sample_key]",
               THEN conjunct2, THEN conjunct1, THEN mp, OF b]
  note t3 = signature_submission_type_and_nonce
              [of bootstrap_msg sample_deps "''peggy''" bootstrap_args,
               THEN conjunct2, THEN conjunct2, THEN mp, OF disjI1 [OF o]]
  from v t1 b t2 o t3 show ?thesis by blast
qed

section \<open>Empty payloads\<close>

text \<open>
  C3. In a run of valset-confirm or of batch-confirm, if any chain query the command
  made (\<^verbatim>\<open>valsetRequest/{nonce}\<close>, \<^verbatim>\<open>lastObservedMultiSigUpdate\<close>, \<^verbatim>\<open>batch/{nonce}\<close>) was
  answered with an empty payload, the command returned \<open>ErrNotFound\<close>, and it called
  neither the signer nor the validation nor the broadcaster.
\<close>

theorem empty_payload_is_not_found:
  assumes "r = CmdValsetConfirm d storeKey args \<or> r = CmdOutgointTXBatchConfirm d storeKey args"
    and "p \<in> set (queried (fst r))"
    and "QueryWithData d p = Inr []"
  shows "snd r = Returned (Some ErrNotFound) \<and>
         signedCheckpoints (fst r) = [] \<and> validated (fst r) = [] \<and> broadcasts (fst r) = []"
  using assms
  by (auto simp: CmdValsetConfirm_def CmdOutgointTXBatchConfirm_def Let_def
           split: if_splits option.splits sum.splits)

theorem empty_payload_is_not_found_witness:
  "(''custom/peggy/valsetRequest/9'' \<in>
      set (queried (fst (CmdValsetConfirm sample_deps ''peggy'' [''9'', sample_key]))) \<and>
    QueryWithData sample_deps ''custom/peggy/valsetRequest/9'' = Inr [] \<and>
    snd (CmdValsetConfirm sample_deps ''peggy'' [''9'', sample_key]) =
      Returned (Some ErrNotFound) \<and>
    signedCheckpoints (fst (CmdValsetConfirm sample_deps ''peggy'' [''9'', sample_key])) = [] \<and>
    validated (fst (CmdValsetConfirm sample_deps ''peggy'' [''9'', sample_key])) = [] \<and>
    broadcasts (fst (CmdValsetConfirm sample_deps ''peggy'' [''9'', sample_key])) = []) \<and>
   (''custom/peggy/lastObservedMultiSigUpdate'' \<in>
      set (queried (fst (CmdOutgointTXBatchConfirm empty_chain_deps ''peggy'' [''7'', sample_key]))) \<and>
    QueryWithData empty_chain_deps ''custom/peggy/lastObservedMultiSigUpdate'' = Inr [] \<and>
    snd (CmdOutgointTXBatchConfirm empty_chain_deps ''peggy'' [''7'', sample_key]) =
      Returned (Some ErrNotFound) \<and>
    signedCheckpoints
      (fst (CmdOutgointTXBatchConfirm empty_chain_deps ''peggy'' [''7'', sample_key])) = [] \<and>
    validated (fst (CmdOutgointTXBatchConfirm empty_chain_deps ''peggy'' [''7'', sample_key])) = [] \<and>
    broadcasts (fst (CmdOutgointTXBatchConfirm empty_chain_deps ''peggy'' [''7'', sample_key])) = []) \<and>
   (''custom/peggy/batch/9'' \<in>
      set (queried (fst (CmdOutgointTXBatchConfirm sample_deps ''peggy'' [''9'', sample_key]))) \<and>
    QueryWithData sample_deps ''custom/peggy/batch/9'' = Inr [] \<and>
    snd (CmdOutgointTXBatchConfirm sample_deps ''peggy'' [''9'', sample_key]) =
      Returned (Some ErrNotFound) \<and>
    signedCheckpoints (fst (CmdOutgointTXBatchConfirm sample_deps ''peggy'' [''9'', sample_key])) = [] \<and>
    validated (fst (CmdOutgointTXBatchConfirm sample_deps ''peggy'' [''9'', sample_key])) = [] \<and>
    broadcasts (fst (CmdOutgointTXBatchConfirm sample_deps ''peggy'' [''9'', sample_key])) = [])"
proof -
  have p1: "''custom/peggy/valsetRequest/9'' \<in>
      set (queried (fst (CmdValsetConfirm sample_deps ''peggy'' [''9'', sample_key])))"
    by (simp add: valset_confirm_run_unknown_nonce)
  have q1: "QueryWithData sample_deps ''custom/peggy/valsetRequest/9'' = Inr []"
    by (simp add: sample_deps_sel)
  have p2: "''custom/peggy/lastObservedMultiSigUpdate'' \<in>
      set (queried (fst (CmdOutgointTXBatchConfirm empty_chain_deps ''peggy'' [''7'', sample_key])))"
    by (simp add: batch_confirm_run_empty_chain)
  have q2: "QueryWithData empty_chain_deps ''custom/peggy/lastObservedMultiSigUpdate'' = Inr []"
    by (simp add: empty_chain_deps_sel)
  have p3: "''custom/peggy/batch/9'' \<in>
      set (queried (fst (CmdOutgointTXBatchConfirm sample_deps ''peggy'' [''9'', sample_key])))"
    by (simp add: batch_confirm_run_unknown_nonce)
  have q3: "QueryWithData sample_deps ''custom/peggy/batch/9'' = Inr []"
    by (simp add: sample_deps_sel)
  note c1 = empty_payload_is_not_found [OF disjI1 [OF refl] p1 q1]
  note c2 = empty_payload_is_not_found [OF disjI2 [OF refl] p2 q2]
  note c3 = empty_payload_is_not_found [OF disjI2 [OF refl] p3 q3]
  from p1 q1 c1 p2 q2 c2 p3 q3 c3 show ?thesis by blast
qed

text \<open>
  C10. When the answer to \<^verbatim>\<open>lastObservedMultiSigUpdate\<close> is empty, batch-confirm makes
  no other query (the batch is never asked for), signs nothing and broadcasts nothing,
  whatever its arguments; given two arguments and a key that decodes, it makes that one
  query and returns \<open>ErrNotFound\<close>.
\<close>

theorem batch_confirm_needs_observed_update:
  assumes "QueryWithData d (''custom/'' @ storeKey @ ''/lastObservedMultiSigUpdate'') = Inr []"
  shows "set (queried (fst (CmdOutgointTXBatchConfirm d storeKey args))) \<subseteq>
           {''custom/'' @ storeKey @ ''/lastObservedMultiSigUpdate''} \<and>
         signedCheckpoints (fst (CmdOutgointTXBatchConfirm d storeKey args)) = [] \<and>
         broadcasts (fst (CmdOutgointTXBatchConfirm d storeKey args)) = [] \<and>
         (length args = 2 \<and> 2 \<le> length (args ! 1) \<and>
          HexToECDSA d (drop 2 (args ! 1)) = Inr privateKey \<longrightarrow>
            CmdOutgointTXBatchConfirm d storeKey args =
              ([CallHexToECDSA (drop 2 (args ! 1)),
                CallQueryWithData (''custom/'' @ storeKey @ ''/lastObservedMultiSigUpdate'')],
               Returned (Some ErrNotFound)))"
  using assms
  by (auto simp: CmdOutgointTXBatchConfirm_def Let_def
           split: if_splits option.splits sum.splits)

theorem batch_confirm_needs_observed_update_witness:
  "QueryWithData empty_chain_deps (''custom/'' @ ''peggy'' @ ''/lastObservedMultiSigUpdate'') =
     Inr [] \<and>
   length [''7'', sample_key] = 2 \<and> 2 \<le> length ([''7'', sample_key] ! 1) \<and>
   HexToECDSA empty_chain_deps (drop 2 ([''7'', sample_key] ! 1)) = Inr (drop 2 sample_key) \<and>
   set (queried (fst (CmdOutgointTXBatchConfirm empty_chain_deps ''peggy'' [''7'', sample_key])))
     \<subseteq> {''custom/'' @ ''peggy'' @ ''/lastObservedMultiSigUpdate''} \<and>
   broadcasts (fst (CmdOutgointTXBatchConfirm empty_chain_deps ''peggy'' [''7'', sample_key])) = [] \<and>
   CmdOutgointTXBatchConfirm empty_chain_deps ''peggy'' [''7'', sample_key] =
     ([CallHexToECDSA (drop 2 ([''7'', sample_key] ! 1)),
       CallQueryWithData (''custom/'' @ ''peggy'' @ ''/lastObservedMultiSigUpdate'')],
      Returned (Some ErrNotFound))"
proof -
  have h: "QueryWithData empty_chain_deps
             (''custom/'' @ ''peggy'' @ ''/lastObservedMultiSigUpdate'') = Inr []"
    by (simp add: empty_chain_deps_sel)
  have a: "length [''7'', sample_key] = 2" by simp
  have k: "2 \<le> length ([''7'', sample_key] ! 1)" by (simp add: sample_key_def)
  have x: "HexToECDSA empty_chain_deps (drop 2 ([''7'', sample_key] ! 1)) =
             Inr (drop 2 sample_key)"
    by (simp add: empty_chain_deps_sel)
  note c = batch_confirm_needs_observed_update
             [OF h, of "[''7'', sample_key]" "drop 2 sample_key"]
  from h a k x c show ?thesis by blast
qed

section \<open>The key argument\<close>

text \<open>
  C9. Both confirmation commands cut the first two bytes off the key argument, whatever
  they are, and give the rest to the hex decoder. With a key argument shorter than two
  bytes the slice is out of range and the command panics before anything else happens.
  With a longer one the decoder is called on the argument without its first two bytes,
  and the run does not depend on what those two bytes were: a key given without prefix
  loses its first two hex digits.
\<close>

theorem confirm_key_prefix_dropped:
  assumes "length args = 2"
  shows "(length (args ! 1) < 2 \<longrightarrow>
            CmdValsetConfirm d storeKey args = ([], Panicked) \<and>
            CmdOutgointTXBatchConfirm d storeKey args = ([], Panicked)) \<and>
         (2 \<le> length (args ! 1) \<longrightarrow>
            (\<exists>tr. fst (CmdValsetConfirm d storeKey args) =
                     CallHexToECDSA (drop 2 (args ! 1)) # tr) \<and>
            (\<exists>tr. fst (CmdOutgointTXBatchConfirm d storeKey args) =
                     CallHexToECDSA (drop 2 (args ! 1)) # tr) \<and>
            (\<forall>key. 2 \<le> length key \<and> drop 2 key = drop 2 (args ! 1) \<longrightarrow>
               CmdValsetConfirm d storeKey [args ! 0, key] = CmdValsetConfirm d storeKey args \<and>
               CmdOutgointTXBatchConfirm d storeKey [args ! 0, key] =
                 CmdOutgointTXBatchConfirm d storeKey args))"
  using assms
  by (auto simp: CmdValsetConfirm_def CmdOutgointTXBatchConfirm_def Let_def
           split: if_splits option.splits sum.splits)

theorem confirm_key_prefix_dropped_witness:
  "length [''1'', ''0''] = 2 \<and> length ([''1'', ''0''] ! 1) < 2 \<and>
   CmdValsetConfirm sample_deps ''peggy'' [''1'', ''0''] = ([], Panicked) \<and>
   CmdOutgointTXBatchConfirm sample_deps ''peggy'' [''1'', ''0''] = ([], Panicked) \<and>
   length [''1'', unprefixed_key] = 2 \<and> 2 \<le> length ([''1'', unprefixed_key] ! 1) \<and>
   (\<exists>tr. fst (CmdValsetConfirm sample_deps ''peggy'' [''1'', unprefixed_key]) =
      CallHexToECDSA ''0883a69102937d6231471b5dbb6204fe5129617082792ae468d01a3f362318'' # tr) \<and>
   (\<exists>tr. fst (CmdOutgointTXBatchConfirm sample_deps ''peggy'' [''1'', unprefixed_key]) =
      CallHexToECDSA ''0883a69102937d6231471b5dbb6204fe5129617082792ae468d01a3f362318'' # tr) \<and>
   CmdValsetConfirm sample_deps ''peggy'' [''1'', ''zz'' @ drop 2 sample_key] =
     CmdValsetConfirm sample_deps ''peggy'' [''1'', sample_key] \<and>
   CmdOutgointTXBatchConfirm sample_deps ''peggy'' [''7'', ''zz'' @ drop 2 sample_key] =
     CmdOutgointTXBatchConfirm sample_deps ''peggy'' [''7'', sample_key]"
proof -
  have a0: "length [''1'', ''0''] = 2" and s0: "length ([''1'', ''0''] ! 1) < 2" by simp_all
  have a1: "length [''1'', unprefixed_key] = 2" by simp
  have s1: "2 \<le> length ([''1'', unprefixed_key] ! 1)" by (simp add: unprefixed_key_def)
  have d: "drop 2 ([''1'', unprefixed_key] ! 1) =
             ''0883a69102937d6231471b5dbb6204fe5129617082792ae468d01a3f362318''"
    by (simp add: unprefixed_key_def)
  have a2: "length [n, sample_key] = 2" for n by simp
  have s2: "2 \<le> length ([n, sample_key] ! 1)" for n by (simp add: sample_key_def)
  have z: "2 \<le> length (''zz'' @ drop 2 sample_key) \<and>
           drop 2 (''zz'' @ drop 2 sample_key) = drop 2 ([n, sample_key] ! 1)" for n
    by simp
  note c0 = confirm_key_prefix_dropped [OF a0, of sample_deps "''peggy''",
              THEN conjunct1, THEN mp, OF s0]
  note c1 = confirm_key_prefix_dropped [OF a1, of sample_deps "''peggy''",
              THEN conjunct2, THEN mp, OF s1, unfolded d]
  note c2 = confirm_key_prefix_dropped [OF a2, of _ sample_deps "''peggy''",
              THEN conjunct2, THEN mp, OF s2, THEN conjunct2, THEN conjunct2,
              THEN spec, THEN mp, OF z]
  have n0: "[n, sample_key] ! 0 = n" for n by simp
  note c21 = c2 [of "''1''", unfolded n0, THEN conjunct1]
  note c22 = c2 [of "''7''", unfolded n0, THEN conjunct2]
  from a0 s0 c0 a1 s1 c1 c21 c22 show ?thesis by blast
qed

section \<open>Validation comes before broadcast\<close>

lemma observation_runs_shape:
  assumes "r = CmdSendETHBootstrapRequest d args \<or> r = CmdSendETHDepositRequest d args \<or>
           r = CmdSendETHWithdrawalRequest d args \<or> r = CmdSendETHMultiSigRequest d args"
  shows "(validated (fst r) = [] \<and> broadcasts (fst r) = [] \<and> snd r \<noteq> Returned None) \<or>
         (\<exists>m e. validated (fst r) = [m] \<and> ValidateBasic d m = Some e \<and>
                broadcasts (fst r) = [] \<and> snd r = Returned (Some e)) \<or>
         (\<exists>m. validated (fst r) = [m] \<and> ValidateBasic d m = None \<and>
              broadcasts (fst r) = [[m]] \<and>
              drop (length (fst r) - 2) (fst r) =
                [CallValidateBasic m, CallGenerateOrBroadcastMsgs [m]] \<and>
              snd r = Returned (GenerateOrBroadcastMsgs d [m]))"
  using assms
  by (auto simp: CmdSendETHBootstrapRequest_def CmdSendETHDepositRequest_def
        CmdSendETHWithdrawalRequest_def CmdSendETHMultiSigRequest_def Let_def
        split: if_splits prod.splits option.splits sum.splits)

lemma valset_confirm_shape:
  assumes "r = CmdValsetConfirm d storeKey args"
  shows "(validated (fst r) = [] \<and> broadcasts (fst r) = [] \<and> snd r \<noteq> Returned None) \<or>
         (\<exists>m e. validated (fst r) = [m] \<and> ValidateBasic d m = Some e \<and>
                broadcasts (fst r) = [] \<and> snd r = Returned (Some e)) \<or>
         (\<exists>m. validated (fst r) = [m] \<and> ValidateBasic d m = None \<and>
              broadcasts (fst r) = [[m]] \<and>
              drop (length (fst r) - 2) (fst r) =
                [CallValidateBasic m, CallGenerateOrBroadcastMsgs [m]] \<and>
              snd r = Returned (GenerateOrBroadcastMsgs d [m]))"
  using assms
  by (auto simp: CmdValsetConfirm_def Let_def split: if_splits option.splits sum.splits)

lemma batch_confirm_shape:
  assumes "r = CmdOutgointTXBatchConfirm d storeKey args"
  shows "(validated (fst r) = [] \<and> broadcasts (fst r) = [] \<and> snd r \<noteq> Returned None) \<or>
         (\<exists>m e. validated (fst r) = [m] \<and> ValidateBasic d m = Some e \<and>
                broadcasts (fst r) = [] \<and> snd r = Returned (Some e)) \<or>
         (\<exists>m. validated (fst r) = [m] \<and> ValidateBasic d m = None \<and>
              broadcasts (fst r) = [[m]] \<and>
              drop (length (fst r) - 2) (fst r) =
                [CallValidateBasic m, CallGenerateOrBroadcastMsgs [m]] \<and>
              snd r = Returned (GenerateOrBroadcastMsgs d [m]))"
  using assms
  by (auto simp: CmdOutgointTXBatchConfirm_def Let_def split: if_splits option.splits sum.splits)

lemma parse_failures:
  "length args = 7 \<and> ParseUint (args ! 2) = (v, Some e) \<longrightarrow>
     CmdSendETHBootstrapRequest d args = ([], Returned (Some e))"
  "length args = 7 \<and> ParseUint (args ! 2) = (v, None) \<and>
   parsePowers (Split (args ! 4) CHR '','') [] = Inl e \<longrightarrow>
     CmdSendETHBootstrapRequest d args = ([], Returned (Some e))"
  "length args = 7 \<and> ParseUint (args ! 2) = (v, None) \<and>
   parsePowers (Split (args ! 4) CHR '','') [] = Inr ps \<and>
   ParseUint (args ! 6) = (v', Some e) \<longrightarrow>
     CmdSendETHBootstrapRequest d args = ([], Returned (Some (Wrap e ''start threshold'')))"
  "length args = 8 \<and> parseNonce d (args ! 2) = Inl e \<longrightarrow>
     CmdSendETHDepositRequest d args = ([], Returned (Some e))"
  "length args = 8 \<and> parseNonce d (args ! 2) = Inr n \<and>
   AccAddressFromBech32 d (args ! 3) = Inl e \<longrightarrow>
     CmdSendETHDepositRequest d args = ([], Returned (Some (Wrap e ''cosmos receiver'')))"
  "length args = 8 \<and> parseNonce d (args ! 2) = Inr n \<and>
   AccAddressFromBech32 d (args ! 3) = Inr a \<and> ParseInt (args ! 4) = (i, Some e) \<longrightarrow>
     CmdSendETHDepositRequest d args = ([], Returned (Some (Wrap e ''amount'')))"
  "length args = 3 \<and> parseNonce d (args ! 2) = Inl e \<longrightarrow>
     CmdSendETHWithdrawalRequest d args = ([], Returned (Some e)) \<and>
     CmdSendETHMultiSigRequest d args = ([], Returned (Some e))"
  "length args = 2 \<and> 2 \<le> length (args ! 1) \<and> HexToECDSA d (drop 2 (args ! 1)) = Inl e \<longrightarrow>
     CmdValsetConfirm d storeKey args =
       ([CallHexToECDSA (drop 2 (args ! 1))], Returned (Some e)) \<and>
     CmdOutgointTXBatchConfirm d storeKey args =
       ([CallHexToECDSA (drop 2 (args ! 1))], Returned (Some e))"
  by (simp_all add: CmdSendETHBootstrapRequest_def CmdSendETHDepositRequest_def
        CmdSendETHWithdrawalRequest_def CmdSendETHMultiSigRequest_def CmdValsetConfirm_def
        CmdOutgointTXBatchConfirm_def Let_def)

text \<open>
  C4, as the code has it. Every run of each of the six commands is of one of three kinds: no message was
  validated, none was broadcast and the command did not return success; or one message
  was validated, its \<open>ValidateBasic\<close> failed, the command returned that error and
  broadcast nothing; or one message was validated, its \<open>ValidateBasic\<close> passed, and the
  last two calls of the run are that validation and then the broadcast of that same
  message, whose result the command returns. And when an argument does not parse, the
  command returns the parser's error (wrapped where the code wraps it) without having
  validated or broadcast anything; for the key argument of the two confirmation
  commands this is said of keys of at least two bytes.
\<close>

theorem validate_before_broadcast:
  "(\<forall>r \<in> {CmdSendETHBootstrapRequest d args, CmdSendETHDepositRequest d args,
            CmdSendETHWithdrawalRequest d args, CmdSendETHMultiSigRequest d args,
            CmdValsetConfirm d storeKey args, CmdOutgointTXBatchConfirm d storeKey args}.
      (validated (fst r) = [] \<and> broadcasts (fst r) = [] \<and> snd r \<noteq> Returned None) \<or>
      (\<exists>m e. validated (fst r) = [m] \<and> ValidateBasic d m = Some e \<and>
             broadcasts (fst r) = [] \<and> snd r = Returned (Some e)) \<or>
      (\<exists>m. validated (fst r) = [m] \<and> ValidateBasic d m = None \<and>
           broadcasts (fst r) = [[m]] \<and>
           drop (length (fst r) - 2) (fst r) =
             [CallValidateBasic m, CallGenerateOrBroadcastMsgs [m]] \<and>
           snd r = Returned (GenerateOrBroadcastMsgs d [m]))) \<and>
   (length args = 7 \<and> ParseUint (args ! 2) = (v, Some e) \<longrightarrow>
      CmdSendETHBootstrapRequest d args = ([], Returned (Some e))) \<and>
   (length args = 7 \<and> ParseUint (args ! 2) = (v, None) \<and>
    parsePowers (Split (args ! 4) CHR '','') [] = Inl e \<longrightarrow>
      CmdSendETHBootstrapRequest d args = ([], Returned (Some e))) \<and>
   (length args = 7 \<and> ParseUint (args ! 2) = (v, None) \<and>
    parsePowers (Split (args ! 4) CHR '','') [] = Inr ps \<and>
    ParseUint (args ! 6) = (v', Some e) \<longrightarrow>
      CmdSendETHBootstrapRequest d args = ([], Returned (Some (Wrap e ''start threshold'')))) \<and>
   (length args = 8 \<and> parseNonce d (args ! 2) = Inl e \<longrightarrow>
      CmdSendETHDepositRequest d args = ([], Returned (Some e))) \<and>
   (length args = 8 \<and> parseNonce d (args ! 2) = Inr n \<and>
    AccAddressFromBech32 d (args ! 3) = Inl e \<longrightarrow>
      CmdSendETHDepositRequest d args = ([], Returned (Some (Wrap e ''cosmos receiver'')))) \<and>
   (length args = 8 \<and> parseNonce d (args ! 2) = Inr n \<and>
    AccAddressFromBech32 d (args ! 3) = Inr a \<and> ParseInt (args ! 4) = (i, Some e) \<longrightarrow>
      CmdSendETHDepositRequest d args = ([], Returned (Some (Wrap e ''amount'')))) \<and>
   (length args = 3 \<and> parseNonce d (args ! 2) = Inl e \<longrightarrow>
      CmdSendETHWithdrawalRequest d args = ([], Returned (Some e)) \<and>
      CmdSendETHMultiSigRequest d args = ([], Returned (Some e))) \<and>
   (length args = 2 \<and> 2 \<le> length (args ! 1) \<and>
    HexToECDSA d (drop 2 (args ! 1)) = Inl e \<longrightarrow>
      CmdValsetConfirm d storeKey args =
        ([CallHexToECDSA (drop 2 (args ! 1))], Returned (Some e)) \<and>
      CmdOutgointTXBatchConfirm d storeKey args =
        ([CallHexToECDSA (drop 2 (args ! 1))], Returned (Some e)))"
proof (intro conjI ballI)
  fix r
  assume "r \<in> {CmdSendETHBootstrapRequest d args, CmdSendETHDepositRequest d args,
            CmdSendETHWithdrawalRequest d args, CmdSendETHMultiSigRequest d args,
            CmdValsetConfirm d storeKey args, CmdOutgointTXBatchConfirm d storeKey args}"
  then consider
      "r = CmdSendETHBootstrapRequest d args \<or> r = CmdSendETHDepositRequest d args \<or>
       r = CmdSendETHWithdrawalRequest d args \<or> r = CmdSendETHMultiSigRequest d args"
    | "r = CmdValsetConfirm d storeKey args"
    | "r = CmdOutgointTXBatchConfirm d storeKey args"
    by blast
  then show "(validated (fst r) = [] \<and> broadcasts (fst r) = [] \<and> snd r \<noteq> Returned None) \<or>
      (\<exists>m e. validated (fst r) = [m] \<and> ValidateBasic d m = Some e \<and>
             broadcasts (fst r) = [] \<and> snd r = Returned (Some e)) \<or>
      (\<exists>m. validated (fst r) = [m] \<and> ValidateBasic d m = None \<and>
           broadcasts (fst r) = [[m]] \<and>
           drop (length (fst r) - 2) (fst r) =
             [CallValidateBasic m, CallGenerateOrBroadcastMsgs [m]] \<and>
           snd r = Returned (GenerateOrBroadcastMsgs d [m]))"
  proof cases
    case 1
    then show ?thesis by (rule observation_runs_shape)
  next
    case 2
    then show ?thesis by (rule valset_confirm_shape)
  next
    case 3
    then show ?thesis by (rule batch_confirm_shape)
  qed
qed (rule parse_failures)+

theorem validate_before_broadcast_witness:
  "snd (CmdSendETHBootstrapRequest refusing_deps bootstrap_args) =
     Returned (Some (ErrExternal ''invalid message'')) \<and>
   broadcasts (fst (CmdSendETHBootstrapRequest refusing_deps bootstrap_args)) = [] \<and>
   broadcasts (fst (CmdSendETHBootstrapRequest sample_deps bootstrap_args)) = [[bootstrap_msg]] \<and>
   drop (length (fst (CmdSendETHBootstrapRequest sample_deps bootstrap_args)) - 2)
     (fst (CmdSendETHBootstrapRequest sample_deps bootstrap_args)) =
       [CallValidateBasic bootstrap_msg, CallGenerateOrBroadcastMsgs [bootstrap_msg]] \<and>
   CmdSendETHBootstrapRequest sample_deps
     [''5'', ''0xB1'', ''x'', ''0xA,0xB'', ''50,30'', ''foo'', ''66''] =
     ([], Returned (Some ErrSyntax)) \<and>
   CmdSendETHBootstrapRequest sample_deps
     [''5'', ''0xB1'', ''12'', ''0xA,0xB'', ''50,x'', ''foo'', ''66''] =
     ([], Returned (Some (Wrap ErrSyntax ''power''))) \<and>
   CmdSendETHBootstrapRequest sample_deps
     [''5'', ''0xB1'', ''12'', ''0xA,0xB'', ''50,30'', ''foo'', ''-1''] =
     ([], Returned (Some (Wrap ErrSyntax ''start threshold''))) \<and>
   CmdSendETHDepositRequest sample_deps
     [''5'', ''0xB1'', ''x'', ''cosmos1receiver'', ''12'', ''DAI'', ''0xT'', ''0xS''] =
     ([], Returned (Some ErrSyntax)) \<and>
   CmdSendETHDepositRequest sample_deps
     [''5'', ''0xB1'', ''3'', ''receiver'', ''12'', ''DAI'', ''0xT'', ''0xS''] =
     ([], Returned (Some (Wrap (ErrExternal ''invalid bech32'') ''cosmos receiver''))) \<and>
   CmdSendETHDepositRequest sample_deps (deposit_args ''1e3'') =
     ([], Returned (Some (Wrap ErrSyntax ''amount''))) \<and>
   CmdSendETHWithdrawalRequest sample_deps [''5'', ''0xB1'', ''x''] =
     ([], Returned (Some ErrSyntax)) \<and>
   CmdSendETHMultiSigRequest sample_deps [''5'', ''0xB1'', ''x''] =
     ([], Returned (Some ErrSyntax)) \<and>
   CmdValsetConfirm sample_deps ''peggy'' [''1'', ''0xzz''] =
     ([CallHexToECDSA ''zz''], Returned (Some (ErrExternal ''invalid hex key''))) \<and>
   CmdOutgointTXBatchConfirm sample_deps ''peggy'' [''1'', ''0xzz''] =
     ([CallHexToECDSA ''zz''], Returned (Some (ErrExternal ''invalid hex key'')))"
proof -
  have v1: "validated (fst (CmdSendETHBootstrapRequest refusing_deps bootstrap_args)) =
              [bootstrap_msg]"
    by (rule refused_bootstrap_validated)
  have r1: "ValidateBasic refusing_deps m = Some (ErrExternal ''invalid message'')" for m
    by (simp add: refusing_deps_def)
  have v2: "validated (fst (CmdSendETHBootstrapRequest sample_deps bootstrap_args)) =
              [bootstrap_msg]"
    by (simp add: bootstrap_run)
  have r2: "ValidateBasic sample_deps m = None" for m
    by (simp add: sample_deps_sel)
  note t1 = validate_before_broadcast
              [where d = refusing_deps and args = bootstrap_args and storeKey = "''peggy''",
               THEN conjunct1, THEN bspec,
               of "CmdSendETHBootstrapRequest refusing_deps bootstrap_args"]
  note t2 = validate_before_broadcast
              [where d = sample_deps and args = bootstrap_args and storeKey = "''peggy''",
               THEN conjunct1, THEN bspec,
               of "CmdSendETHBootstrapRequest sample_deps bootstrap_args"]
  have c1: "snd (CmdSendETHBootstrapRequest refusing_deps bootstrap_args) =
              Returned (Some (ErrExternal ''invalid message'')) \<and>
            broadcasts (fst (CmdSendETHBootstrapRequest refusing_deps bootstrap_args)) = []"
    using t1 by (auto simp: v1 r1)
  have c2: "broadcasts (fst (CmdSendETHBootstrapRequest sample_deps bootstrap_args)) =
              [[bootstrap_msg]] \<and>
            drop (length (fst (CmdSendETHBootstrapRequest sample_deps bootstrap_args)) - 2)
              (fst (CmdSendETHBootstrapRequest sample_deps bootstrap_args)) =
                [CallValidateBasic bootstrap_msg, CallGenerateOrBroadcastMsgs [bootstrap_msg]]"
    using t2 by (auto simp: v2 r2)
  have e1: "CmdSendETHBootstrapRequest sample_deps
              [''5'', ''0xB1'', ''x'', ''0xA,0xB'', ''50,30'', ''foo'', ''66''] =
              ([], Returned (Some ErrSyntax))"
    by (rule validate_before_broadcast [where v = 0, THEN conjunct2, THEN conjunct1, THEN mp])
       (simp add: parser_errors)
  have e2: "CmdSendETHBootstrapRequest sample_deps
              [''5'', ''0xB1'', ''12'', ''0xA,0xB'', ''50,x'', ''foo'', ''66''] =
              ([], Returned (Some (Wrap ErrSyntax ''power'')))"
    by (rule validate_before_broadcast [where v = 12, THEN conjunct2, THEN conjunct2,
                   THEN conjunct1, THEN mp])
       (simp add: parser_errors ParseUint_small)
  have e3: "CmdSendETHBootstrapRequest sample_deps
              [''5'', ''0xB1'', ''12'', ''0xA,0xB'', ''50,30'', ''foo'', ''-1''] =
              ([], Returned (Some (Wrap ErrSyntax ''start threshold'')))"
    by (rule validate_before_broadcast [where v = 12 and ps = "[50, 30]" and v' = 0,
                   THEN conjunct2, THEN conjunct2, THEN conjunct2, THEN conjunct1, THEN mp])
       (simp add: parser_errors ParseUint_small)
  have e4: "CmdSendETHDepositRequest sample_deps
              [''5'', ''0xB1'', ''x'', ''cosmos1receiver'', ''12'', ''DAI'', ''0xT'', ''0xS''] =
              ([], Returned (Some ErrSyntax))"
    by (rule validate_before_broadcast [THEN conjunct2, THEN conjunct2, THEN conjunct2,
                   THEN conjunct2, THEN conjunct1, THEN mp])
       (simp add: parseNonce_def sample_deps_sel parser_errors)
  have e5: "CmdSendETHDepositRequest sample_deps
              [''5'', ''0xB1'', ''3'', ''receiver'', ''12'', ''DAI'', ''0xT'', ''0xS''] =
              ([], Returned (Some (Wrap (ErrExternal ''invalid bech32'') ''cosmos receiver'')))"
    by (rule validate_before_broadcast [where n = 3, THEN conjunct2, THEN conjunct2,
                   THEN conjunct2, THEN conjunct2, THEN conjunct2, THEN conjunct1, THEN mp])
       (simp add: parseNonce_def sample_deps_sel ParseUint_small sample_deps_def)
  have e6: "CmdSendETHDepositRequest sample_deps (deposit_args ''1e3'') =
              ([], Returned (Some (Wrap ErrSyntax ''amount'')))"
    by (rule validate_before_broadcast [where n = 3 and a = "''receiver''" and i = 0,
                   THEN conjunct2, THEN conjunct2, THEN conjunct2, THEN conjunct2,
                   THEN conjunct2, THEN conjunct2, THEN conjunct1, THEN mp])
       (simp add: deposit_args_def parseNonce_def sample_deps_sel ParseUint_small parser_errors)
  have e7: "CmdSendETHWithdrawalRequest sample_deps [''5'', ''0xB1'', ''x''] =
              ([], Returned (Some ErrSyntax)) \<and>
            CmdSendETHMultiSigRequest sample_deps [''5'', ''0xB1'', ''x''] =
              ([], Returned (Some ErrSyntax))"
    by (rule validate_before_broadcast [THEN conjunct2, THEN conjunct2, THEN conjunct2,
                   THEN conjunct2, THEN conjunct2, THEN conjunct2, THEN conjunct2,
                   THEN conjunct1, THEN mp])
       (simp add: parseNonce_def sample_deps_sel parser_errors)
  have k: "[''1'', ''0xzz''] ! 1 = ''0xzz''" "drop 2 ''0xzz'' = ''zz''" by simp_all
  have e8: "CmdValsetConfirm sample_deps ''peggy'' [''1'', ''0xzz''] =
              ([CallHexToECDSA (drop 2 ([''1'', ''0xzz''] ! 1))],
               Returned (Some (ErrExternal ''invalid hex key''))) \<and>
            CmdOutgointTXBatchConfirm sample_deps ''peggy'' [''1'', ''0xzz''] =
              ([CallHexToECDSA (drop 2 ([''1'', ''0xzz''] ! 1))],
               Returned (Some (ErrExternal ''invalid hex key'')))"
    by (rule validate_before_broadcast [THEN conjunct2, THEN conjunct2, THEN conjunct2,
                   THEN conjunct2, THEN conjunct2, THEN conjunct2, THEN conjunct2,
                   THEN conjunct2, THEN mp])
       (simp add: sample_deps_def)
  from c1 c2 e1 e2 e3 e4 e5 e6 e7 e8 [unfolded k] show ?thesis by blast
qed

text \<open>
  C4 as the spec words it has every command return the error when an argument does not
  parse. The key argument \<^verbatim>\<open>0\<close> is no key, and the decoder refuses it; the two
  confirmation commands do not return an error on it: the slice \<^verbatim>\<open>args[1][2:]\<close> of
  lines 252 and 304 is out of range and the command panics.
\<close>

theorem short_key_argument_panics_counterexample:
  "length [''1'', ''0''] = 2 \<and> length ([''1'', ''0''] ! 1) < 2 \<and>
   HexToECDSA sample_deps ''0'' = Inl (ErrExternal ''invalid hex key'') \<and>
   CmdValsetConfirm sample_deps ''peggy'' [''1'', ''0''] = ([], Panicked) \<and>
   CmdOutgointTXBatchConfirm sample_deps ''peggy'' [''1'', ''0''] = ([], Panicked) \<and>
   snd (CmdValsetConfirm sample_deps ''peggy'' [''1'', ''0'']) \<noteq>
     Returned (Some (ErrExternal ''invalid hex key'')) \<and>
   snd (CmdOutgointTXBatchConfirm sample_deps ''peggy'' [''1'', ''0'']) \<noteq>
     Returned (Some (ErrExternal ''invalid hex key''))"
  by (simp add: CmdValsetConfirm_def CmdOutgointTXBatchConfirm_def sample_deps_def)

section \<open>The checkpoint that batch-confirm signs\<close>

text \<open>
  C1, as the code has it. Whatever batch-confirm gives to the signer is the batch
  checkpoint of the batch decoded from the answer to \<^verbatim>\<open>batch/{nonce}\<close>: the checkpoint
  function applied to the peggy id, the tag \<^verbatim>\<open>transactionBatch\<close>, that batch's nonce,
  its transfers, and the checkpoint of the valset that the answer to
  \<^verbatim>\<open>lastObservedMultiSigUpdate\<close> carries when the command runs. It is the only
  checkpoint the run signs, and every message the run produces is the signature
  submission with the batch's nonce, the withdraw-batch type and the signature over
  that checkpoint.
\<close>

theorem batch_confirm_signs_batch_checkpoint:
  assumes "c \<in> set (signedCheckpoints (fst (CmdOutgointTXBatchConfirm d storeKey args)))"
  shows "\<exists>privateKey res1 updateRsp res batch.
      HexToECDSA d (drop 2 (args ! 1)) = Inr privateKey \<and>
      QueryWithData d (''custom/'' @ storeKey @ ''/lastObservedMultiSigUpdate'') = Inr res1 \<and>
      UnmarshalMultiSigUpdateResponse d res1 = Some updateRsp \<and>
      QueryWithData d (''custom/'' @ storeKey @ ''/batch/'' @ args ! 0) = Inr res \<and>
      UnmarshalOutgoingTxBatch d res = Some batch \<and>
      CheckpointHash d (BridgePeggyID d) ''transactionBatch'' (OutgoingTxBatch.Nonce batch)
        (Elements batch) (Valset_GetCheckpoint d (Valset updateRsp)) = Inr c \<and>
      signedCheckpoints (fst (CmdOutgointTXBatchConfirm d storeKey args)) = [c] \<and>
      (\<forall>m \<in> set (produced (fst (CmdOutgointTXBatchConfirm d storeKey args))).
         \<exists>signature. NewEthereumSignature d c privateKey = Inr signature \<and>
           m = BridgeSignatureSubmission
                 \<lparr>MsgBridgeSignatureSubmission.Nonce = OutgoingTxBatch.Nonce batch,
                  ClaimType = ClaimTypeOrchestratorSignedWithdrawBatch,
                  MsgBridgeSignatureSubmission.Orchestrator = GetFromAddress d,
                  EthereumSignature = signature\<rparr>)"
  using assms
  by (auto simp: CmdOutgointTXBatchConfirm_def OutgoingTxBatch_GetCheckpoint_def produced_def
        Let_def split: if_splits option.splits sum.splits)

theorem batch_confirm_signs_batch_checkpoint_witness:
  "''foo|transactionBatch|7|0xE|valset 2:0xA0xB0xD'' \<in>
     set (signedCheckpoints
            (fst (CmdOutgointTXBatchConfirm sample_deps ''peggy'' [''7'', sample_key]))) \<and>
   (\<exists>privateKey res1 updateRsp res batch.
      HexToECDSA sample_deps (drop 2 ([''7'', sample_key] ! 1)) = Inr privateKey \<and>
      QueryWithData sample_deps (''custom/'' @ ''peggy'' @ ''/lastObservedMultiSigUpdate'') =
        Inr res1 \<and>
      UnmarshalMultiSigUpdateResponse sample_deps res1 = Some updateRsp \<and>
      QueryWithData sample_deps (''custom/'' @ ''peggy'' @ ''/batch/'' @ [''7'', sample_key] ! 0) =
        Inr res \<and>
      UnmarshalOutgoingTxBatch sample_deps res = Some batch \<and>
      CheckpointHash sample_deps (BridgePeggyID sample_deps) ''transactionBatch''
        (OutgoingTxBatch.Nonce batch) (Elements batch)
        (Valset_GetCheckpoint sample_deps (Valset updateRsp)) =
          Inr ''foo|transactionBatch|7|0xE|valset 2:0xA0xB0xD'' \<and>
      signedCheckpoints
        (fst (CmdOutgointTXBatchConfirm sample_deps ''peggy'' [''7'', sample_key])) =
        [''foo|transactionBatch|7|0xE|valset 2:0xA0xB0xD''] \<and>
      (\<forall>m \<in> set (produced
                    (fst (CmdOutgointTXBatchConfirm sample_deps ''peggy'' [''7'', sample_key]))).
         \<exists>signature. NewEthereumSignature sample_deps
               ''foo|transactionBatch|7|0xE|valset 2:0xA0xB0xD'' privateKey = Inr signature \<and>
           m = BridgeSignatureSubmission
                 \<lparr>MsgBridgeSignatureSubmission.Nonce = OutgoingTxBatch.Nonce batch,
                  ClaimType = ClaimTypeOrchestratorSignedWithdrawBatch,
                  MsgBridgeSignatureSubmission.Orchestrator = GetFromAddress sample_deps,
                  EthereumSignature = signature\<rparr>))"
proof -
  have h: "''foo|transactionBatch|7|0xE|valset 2:0xA0xB0xD'' \<in>
     set (signedCheckpoints
            (fst (CmdOutgointTXBatchConfirm sample_deps ''peggy'' [''7'', sample_key])))"
    by (simp add: batch_confirm_run)
  from h batch_confirm_signs_batch_checkpoint [OF h] show ?thesis by (rule conjI)
qed

text \<open>
  C1 as the spec words it takes the valset to be the one bound to the batch when
  the batch was built. It holds on the chain as it was at build time and fails once a
  later multisig update has been observed: the stored batch 7 is the same on both
  chains, bound to valset 1, and the command signs the checkpoint over valset 1 on the
  first and over valset 2 on the second.
\<close>

theorem batch_checkpoint_bound_valset_counterexample:
  "QueryWithData at_build_deps ''custom/peggy/batch/7'' = Inr ''batch-7'' \<and>
   QueryWithData sample_deps ''custom/peggy/batch/7'' = Inr ''batch-7'' \<and>
   UnmarshalOutgoingTxBatch at_build_deps ''batch-7'' = Some batch_7 \<and>
   UnmarshalOutgoingTxBatch sample_deps ''batch-7'' = Some batch_7 \<and>
   spec_batch_checkpoint at_build_deps batch_7 =
     Inr ''foo|transactionBatch|7|0xE|valset 1:0xA0xB0xC'' \<and>
   spec_batch_checkpoint sample_deps batch_7 =
     Inr ''foo|transactionBatch|7|0xE|valset 1:0xA0xB0xC'' \<and>
   signedCheckpoints
     (fst (CmdOutgointTXBatchConfirm at_build_deps ''peggy'' [''7'', sample_key])) =
     [''foo|transactionBatch|7|0xE|valset 1:0xA0xB0xC''] \<and>
   signedCheckpoints
     (fst (CmdOutgointTXBatchConfirm sample_deps ''peggy'' [''7'', sample_key])) =
     [''foo|transactionBatch|7|0xE|valset 2:0xA0xB0xD''] \<and>
   spec_batch_checkpoint sample_deps batch_7 \<noteq>
     Inr ''foo|transactionBatch|7|0xE|valset 2:0xA0xB0xD''"
  by (simp add: batch_confirm_run batch_confirm_run_at_build spec_batch_checkpoint_def
        at_build_deps_sel sample_deps_sel batch_7_sel)

end
